theory Spec2Isabelle
  imports Complex_Main "HOL-Library.Sublist"
begin

section \<open>Errors and their classification (errors.ts, retry/error-classifier.ts)\<close>

text \<open>
  This theory embeds the core of the transaction kit: the error taxonomy and classifier, the
  retry loop, the circuit breaker, the health tracker and connection pool, the blockhash
  manager, the priority-fee estimator and the send pipeline. Asynchronous functions are
  modelled by what one call does from start to end; the clock, the random source and the
  answers of the RPC node are arguments. All definitions come first, the properties follow.
\<close>

datatype SolTxErrorCode =
    RETRIES_EXHAUSTED | NON_RETRYABLE
  | BLOCKHASH_EXPIRED | BLOCKHASH_FETCH_FAILED
  | SIMULATION_FAILED | INSUFFICIENT_FUNDS
  | CONFIRMATION_TIMEOUT | TRANSACTION_FAILED
  | ALL_ENDPOINTS_UNHEALTHY | RATE_LIMITED
  | BUNDLE_FAILED | BUNDLE_DROPPED | TIP_TOO_LOW
  | FEE_ESTIMATION_FAILED

fun code_string :: "SolTxErrorCode \<Rightarrow> string" where
  "code_string RETRIES_EXHAUSTED = ''RETRIES_EXHAUSTED''"
| "code_string NON_RETRYABLE = ''NON_RETRYABLE''"
| "code_string BLOCKHASH_EXPIRED = ''BLOCKHASH_EXPIRED''"
| "code_string BLOCKHASH_FETCH_FAILED = ''BLOCKHASH_FETCH_FAILED''"
| "code_string SIMULATION_FAILED = ''SIMULATION_FAILED''"
| "code_string INSUFFICIENT_FUNDS = ''INSUFFICIENT_FUNDS''"
| "code_string CONFIRMATION_TIMEOUT = ''CONFIRMATION_TIMEOUT''"
| "code_string TRANSACTION_FAILED = ''TRANSACTION_FAILED''"
| "code_string ALL_ENDPOINTS_UNHEALTHY = ''ALL_ENDPOINTS_UNHEALTHY''"
| "code_string RATE_LIMITED = ''RATE_LIMITED''"
| "code_string BUNDLE_FAILED = ''BUNDLE_FAILED''"
| "code_string BUNDLE_DROPPED = ''BUNDLE_DROPPED''"
| "code_string TIP_TOO_LOW = ''TIP_TOO_LOW''"
| "code_string FEE_ESTIMATION_FAILED = ''FEE_ESTIMATION_FAILED''"

text \<open>A JavaScript error is a plain \<^verbatim>\<open>Error\<close> (its message and its optional \<^verbatim>\<open>code\<close>
  property) or a \<^verbatim>\<open>SolTxError\<close> (code, message, optional cause, context entries).\<close>

datatype js_value = JNum real | JStr string | JStrs "string list"

datatype js_error =
    Error string "string option"
  | SolTxError SolTxErrorCode string "js_error option" "(string \<times> js_value) list"

fun message :: "js_error \<Rightarrow> string" where
  "message (Error m c) = m"
| "message (SolTxError k m cause ctx) = m"

fun code :: "js_error \<Rightarrow> string option" where
  "code (Error m c) = c"
| "code (SolTxError k m cause ctx) = Some (code_string k)"

fun cause :: "js_error \<Rightarrow> js_error option" where
  "cause (Error m c) = None"
| "cause (SolTxError k m c ctx) = c"

text \<open>\<^verbatim>\<open>String.prototype.includes\<close>: the pattern occurs as a contiguous substring.\<close>

fun str_includes :: "string \<Rightarrow> string \<Rightarrow> bool" where
  "str_includes [] p = (p = [])"
| "str_includes (c # cs) p = (prefix p (c # cs) \<or> str_includes cs p)"

record ErrorClassification =
  retryable :: bool
  needsResign :: bool
  errorType :: string

definition RETRYABLE_MESSAGES :: "string list" where
  "RETRYABLE_MESSAGES =
     [''blockhash not found'', ''block height exceeded'',
      ''TransactionExpiredBlockheightExceeded'', ''Node is behind'', ''node is unhealthy'',
      ''Service unavailable'', ''Too many requests'']"

definition NEEDS_RESIGN_MESSAGES :: "string list" where
  "NEEDS_RESIGN_MESSAGES =
     [''blockhash not found'', ''block height exceeded'',
      ''TransactionExpiredBlockheightExceeded'']"

definition NETWORK_ERROR_CODES :: "string list" where
  "NETWORK_ERROR_CODES =
     [''ECONNRESET'', ''ETIMEDOUT'', ''ENOTFOUND'', ''ECONNREFUSED'', ''EAI_AGAIN'', ''EPIPE'']"

definition NON_RETRYABLE_MESSAGES :: "string list" where
  "NON_RETRYABLE_MESSAGES =
     [''insufficient funds'', ''Insufficient funds'', ''invalid account data'',
      ''Account not found'', ''Signature verification failed'',
      ''Transaction simulation failed: Error processing Instruction'',
      ''Program failed to complete'', ''already been processed'']"

fun is_SolTxError :: "js_error \<Rightarrow> bool" where
  "is_SolTxError (Error m c) = False"
| "is_SolTxError (SolTxError k m cs ctx) = True"

definition isBlockhashExpired :: "js_error \<Rightarrow> bool" where
  "isBlockhashExpired error =
     (if is_SolTxError error \<and> code error = Some (code_string BLOCKHASH_EXPIRED) then True
      else list_ex (\<lambda>pattern. str_includes (message error) pattern) NEEDS_RESIGN_MESSAGES)"

text \<open>\<^verbatim>\<open>classifyError\<close>: the rules in the order of the source; the two loops over pattern
  lists return at the first pattern that matches.\<close>

definition classifyError :: "js_error \<Rightarrow> ErrorClassification" where
  "classifyError error =
     (let msg = message error in
      case find (\<lambda>pattern. str_includes msg pattern) NON_RETRYABLE_MESSAGES of
        Some pattern \<Rightarrow> \<lparr>retryable = False, needsResign = False, errorType = pattern\<rparr>
      | None \<Rightarrow>
          if isBlockhashExpired error
          then \<lparr>retryable = True, needsResign = True, errorType = ''BLOCKHASH_EXPIRED''\<rparr>
          else
            (case (case code error of
                     None \<Rightarrow> None
                   | Some c \<Rightarrow> if c \<noteq> [] \<and> c \<in> set NETWORK_ERROR_CODES then Some c else None) of
               Some c \<Rightarrow> \<lparr>retryable = True, needsResign = False, errorType = c\<rparr>
             | None \<Rightarrow>
                 if str_includes msg ''429'' \<or> str_includes msg ''Too many requests''
                 then \<lparr>retryable = True, needsResign = False, errorType = ''RATE_LIMITED''\<rparr>
                 else if str_includes msg ''503'' \<or> str_includes msg ''Service unavailable''
                 then \<lparr>retryable = True, needsResign = False,
                       errorType = ''SERVICE_UNAVAILABLE''\<rparr>
                 else
                   (case find (\<lambda>pattern. str_includes msg pattern) RETRYABLE_MESSAGES of
                      Some pattern \<Rightarrow>
                        \<lparr>retryable = True,
                         needsResign = list_ex (\<lambda>p. str_includes msg p) NEEDS_RESIGN_MESSAGES,
                         errorType = pattern\<rparr>
                    | None \<Rightarrow>
                        \<lparr>retryable = False, needsResign = False, errorType = ''UNKNOWN''\<rparr>)))"

definition isRateLimited :: "js_error \<Rightarrow> bool" where
  "isRateLimited error =
     (str_includes (message error) ''429'' \<or> str_includes (message error) ''Too many requests'')"

section \<open>Retry loop (retry/retry.ts)\<close>

text \<open>
  A thrown value is an \<^verbatim>\<open>Error\<close> or anything else; the loop turns the latter into an
  \<^verbatim>\<open>Error\<close> carrying its string rendering.
\<close>

datatype thrown = ThrownError js_error | ThrownValue string

fun to_error :: "thrown \<Rightarrow> js_error" where
  "to_error (ThrownError e) = e"
| "to_error (ThrownValue s) = Error s None"

text \<open>Decimal rendering of a number inside a template string.\<close>

definition digit_char :: "nat \<Rightarrow> char" where
  "digit_char d = ''0123456789'' ! d"

fun string_of_nat :: "nat \<Rightarrow> string" where
  "string_of_nat n =
     (if n < 10 then [digit_char n] else string_of_nat (n div 10) @ [digit_char (n mod 10)])"

declare string_of_nat.simps [simp del]

text \<open>
  The retried function and the \<^verbatim>\<open>onRetry\<close> hook have effects, so both take and return a
  state of type \<open>'s\<close>; a hook returns \<open>Some\<close> of what it throws. \<open>maxRetries\<close> is a count
  and is taken as a natural number.
\<close>

record 's RetryConfig =
  maxRetries :: nat
  baseDelayMs :: real
  maxDelayMs :: real
  backoffMultiplier :: real
  retryPredicate :: "(js_error \<Rightarrow> nat \<Rightarrow> bool) option"
  onRetry :: "(js_error \<Rightarrow> nat \<Rightarrow> real \<Rightarrow> 's \<Rightarrow> thrown option \<times> 's) option"

record 's PartialRetryConfig =
  p_maxRetries :: "nat option"
  p_baseDelayMs :: "real option"
  p_maxDelayMs :: "real option"
  p_backoffMultiplier :: "real option"
  p_retryPredicate :: "(js_error \<Rightarrow> nat \<Rightarrow> bool) option"
  p_onRetry :: "(js_error \<Rightarrow> nat \<Rightarrow> real \<Rightarrow> 's \<Rightarrow> thrown option \<times> 's) option"

definition resolve_retry_config :: "'s PartialRetryConfig option \<Rightarrow> 's RetryConfig" where
  "resolve_retry_config config =
     (case config of
        None \<Rightarrow>
          \<lparr>maxRetries = 3, baseDelayMs = 500, maxDelayMs = 10000, backoffMultiplier = 2,
           retryPredicate = None, onRetry = None\<rparr>
      | Some c \<Rightarrow>
          \<lparr>maxRetries = (case p_maxRetries c of None \<Rightarrow> 3 | Some v \<Rightarrow> v),
           baseDelayMs = (case p_baseDelayMs c of None \<Rightarrow> 500 | Some v \<Rightarrow> v),
           maxDelayMs = (case p_maxDelayMs c of None \<Rightarrow> 10000 | Some v \<Rightarrow> v),
           backoffMultiplier = (case p_backoffMultiplier c of None \<Rightarrow> 2 | Some v \<Rightarrow> v),
           retryPredicate = p_retryPredicate c,
           onRetry = p_onRetry c\<rparr>)"

record RetryContext =
  attempt :: nat
  totalAttempts :: nat
  elapsed :: int
  lastError :: "js_error option"

text \<open>The readings of \<^verbatim>\<open>Date.now()\<close> (on entry, when the context of attempt \<open>k\<close> is built,
  and when the loop has run out) and the draws of \<^verbatim>\<open>Math.random()\<close> (after attempt \<open>k\<close>
  failed). Sleeping has no other effect than on these readings.\<close>

record RetryClock =
  clk_start :: int
  clk_attempt :: "nat \<Rightarrow> int"
  clk_end :: int
  clk_random :: "nat \<Rightarrow> real"

definition computeDelay :: "nat \<Rightarrow> 's RetryConfig \<Rightarrow> real \<Rightarrow> real" where
  "computeDelay att config rand =
     (let exponential = baseDelayMs config * backoffMultiplier config ^ att;
          capped = min exponential (maxDelayMs config)
      in rand * capped)"

text \<open>The result of a call: what it returns or throws, the statement that ended it, the
  number of invocations of the retried function, the errors those invocations threw (in
  order), and the final state.\<close>

datatype retry_exit = Returned | NonRetryableThrown | HookThrown | ExhaustedThrown

record ('a, 's) retry_result =
  rr_outcome :: "thrown + 'a"
  rr_exit :: retry_exit
  rr_calls :: nat
  rr_errors :: "js_error list"
  rr_state :: 's

text \<open>The decision after a failed attempt that is not the last: \<open>Some\<close> of the
  NON_RETRYABLE error to throw, or \<open>None\<close> to go on.\<close>

definition non_retryable_error :: "'s RetryConfig \<Rightarrow> js_error \<Rightarrow> nat \<Rightarrow> js_error option" where
  "non_retryable_error resolved error att =
     (case retryPredicate resolved of
        Some predicate \<Rightarrow>
          if \<not> predicate error att
          then Some (SolTxError NON_RETRYABLE
                       (''Non-retryable (custom predicate): '' @ message error)
                       (Some error) [(''attempt'', JNum (real att))])
          else None
      | None \<Rightarrow>
          (let classification = classifyError error in
           if \<not> retryable classification
           then Some (SolTxError NON_RETRYABLE (''Non-retryable: '' @ message error)
                        (Some error)
                        [(''attempt'', JNum (real att)),
                         (''errorType'', JStr (errorType classification))])
           else None))"

definition retries_exhausted ::
  "'s RetryConfig \<Rightarrow> RetryClock \<Rightarrow> js_error option \<Rightarrow> js_error" where
  "retries_exhausted resolved clk lastErr =
     SolTxError RETRIES_EXHAUSTED
       (''All '' @ string_of_nat (maxRetries resolved + 1) @ '' attempts failed'')
       (Some (case lastErr of Some e \<Rightarrow> e | None \<Rightarrow> Error ''Unknown error'' None))
       [(''maxRetries'', JNum (real (maxRetries resolved))),
        (''elapsed'', JNum (real_of_int (clk_end clk - clk_start clk)))]"

text \<open>The \<^verbatim>\<open>for\<close> loop from attempt \<open>att\<close> on, followed by the final \<^verbatim>\<open>throw\<close>.\<close>

function withRetry_loop ::
  "(RetryContext \<Rightarrow> 's \<Rightarrow> (thrown + 'a) \<times> 's) \<Rightarrow> 's RetryConfig \<Rightarrow> RetryClock
     \<Rightarrow> nat \<Rightarrow> js_error option \<Rightarrow> nat \<Rightarrow> js_error list \<Rightarrow> 's \<Rightarrow> ('a, 's) retry_result" where
  "withRetry_loop fn resolved clk att lastErr calls errs s =
     (if att \<le> maxRetries resolved then
        (case fn \<lparr>attempt = att, totalAttempts = maxRetries resolved + 1,
                   elapsed = clk_attempt clk att - clk_start clk, lastError = lastErr\<rparr> s of
           (Inr v, s1) \<Rightarrow>
             \<lparr>rr_outcome = Inr v, rr_exit = Returned, rr_calls = calls + 1,
              rr_errors = errs, rr_state = s1\<rparr>
         | (Inl err, s1) \<Rightarrow>
             (let error = to_error err in
              if att \<ge> maxRetries resolved then
                \<lparr>rr_outcome = Inl (ThrownError (retries_exhausted resolved clk (Some error))),
                 rr_exit = ExhaustedThrown, rr_calls = calls + 1,
                 rr_errors = errs @ [error], rr_state = s1\<rparr>
              else
                (case non_retryable_error resolved error att of
                   Some e \<Rightarrow>
                     \<lparr>rr_outcome = Inl (ThrownError e), rr_exit = NonRetryableThrown,
                      rr_calls = calls + 1, rr_errors = errs @ [error], rr_state = s1\<rparr>
                 | None \<Rightarrow>
                     (let delayMs = computeDelay att resolved (clk_random clk att) in
                      case (case onRetry resolved of
                              Some hook \<Rightarrow> hook error att delayMs s1
                            | None \<Rightarrow> (None, s1)) of
                        (Some t, s2) \<Rightarrow>
                          \<lparr>rr_outcome = Inl t, rr_exit = HookThrown, rr_calls = calls + 1,
                           rr_errors = errs @ [error], rr_state = s2\<rparr>
                      | (None, s2) \<Rightarrow>
                          withRetry_loop fn resolved clk (att + 1) (Some error) (calls + 1)
                            (errs @ [error]) s2))))
      else
        \<lparr>rr_outcome = Inl (ThrownError (retries_exhausted resolved clk lastErr)),
         rr_exit = ExhaustedThrown, rr_calls = calls, rr_errors = errs, rr_state = s\<rparr>)"
  by pat_completeness auto
termination
  by (relation "measure (\<lambda>(fn, resolved, clk, att, lastErr, calls, errs, s).
                   maxRetries resolved + 1 - att)") auto

declare withRetry_loop.simps [simp del]

definition withRetry ::
  "(RetryContext \<Rightarrow> 's \<Rightarrow> (thrown + 'a) \<times> 's) \<Rightarrow> 's PartialRetryConfig option \<Rightarrow> RetryClock
     \<Rightarrow> 's \<Rightarrow> ('a, 's) retry_result" where
  "withRetry fn config clk s =
     withRetry_loop fn (resolve_retry_config config) clk 0 None 0 [] s"

section \<open>Circuit breaker (rpc/circuit-breaker.ts)\<close>

text \<open>
  Times are the millisecond readings of \<^verbatim>\<open>Date.now()\<close>; every operation that reads the
  clock takes the reading as the argument \<open>now\<close>. The object is a record, and each
  method returns the updated object (a getter that mutates returns the pair of its value
  and the updated object).
\<close>

datatype CircuitState = CLOSED | OPEN | HALF_OPEN

record CircuitBreakerConfig =
  failureThreshold :: int
  resetTimeoutMs :: int
  windowMs :: int

record PartialCircuitBreakerConfig =
  p_failureThreshold :: "int option"
  p_resetTimeoutMs :: "int option"
  p_windowMs :: "int option"

definition DEFAULT_CIRCUIT_BREAKER_CONFIG :: CircuitBreakerConfig where
  "DEFAULT_CIRCUIT_BREAKER_CONFIG =
     \<lparr>failureThreshold = 5, resetTimeoutMs = 30000, windowMs = 60000\<rparr>"

record CircuitBreaker =
  cb_state :: CircuitState
  cb_failures :: "int list"
  cb_lastOpenedAt :: int
  cb_config :: CircuitBreakerConfig

text \<open>The constructor: the defaults, overridden by the fields the caller gives.\<close>

definition new_CircuitBreaker :: "PartialCircuitBreakerConfig option \<Rightarrow> CircuitBreaker" where
  "new_CircuitBreaker cfg =
     (let d = DEFAULT_CIRCUIT_BREAKER_CONFIG;
          c = (case cfg of
                 None \<Rightarrow> d
               | Some p \<Rightarrow>
                   \<lparr>failureThreshold =
                      (case p_failureThreshold p of None \<Rightarrow> failureThreshold d | Some v \<Rightarrow> v),
                    resetTimeoutMs =
                      (case p_resetTimeoutMs p of None \<Rightarrow> resetTimeoutMs d | Some v \<Rightarrow> v),
                    windowMs =
                      (case p_windowMs p of None \<Rightarrow> windowMs d | Some v \<Rightarrow> v)\<rparr>)
      in \<lparr>cb_state = CLOSED, cb_failures = [], cb_lastOpenedAt = 0, cb_config = c\<rparr>)"

text \<open>The getter \<^verbatim>\<open>currentState\<close>: promotes OPEN to HALF_OPEN when the reset timeout has
  elapsed, then returns the state.\<close>

definition currentState :: "int \<Rightarrow> CircuitBreaker \<Rightarrow> CircuitState \<times> CircuitBreaker" where
  "currentState now b =
     (let b' = (if cb_state b = OPEN
                then (if now - cb_lastOpenedAt b \<ge> resetTimeoutMs (cb_config b)
                      then b\<lparr>cb_state := HALF_OPEN\<rparr> else b)
                else b)
      in (cb_state b', b'))"

definition recordSuccess :: "CircuitBreaker \<Rightarrow> CircuitBreaker" where
  "recordSuccess b =
     (if cb_state b = HALF_OPEN
      then b\<lparr>cb_state := CLOSED, cb_failures := []\<rparr>
      else b)"

definition recordFailure :: "int \<Rightarrow> CircuitBreaker \<Rightarrow> CircuitBreaker" where
  "recordFailure now b =
     (if cb_state b = HALF_OPEN
      then b\<lparr>cb_state := OPEN, cb_lastOpenedAt := now\<rparr>
      else
        (let fs = filter (\<lambda>t. now - t < windowMs (cb_config b)) (cb_failures b) @ [now];
             b1 = b\<lparr>cb_failures := fs\<rparr>
         in if int (length fs) \<ge> failureThreshold (cb_config b)
            then b1\<lparr>cb_state := OPEN, cb_lastOpenedAt := now\<rparr>
            else b1))"

definition canExecute :: "int \<Rightarrow> CircuitBreaker \<Rightarrow> bool \<times> CircuitBreaker" where
  "canExecute now b =
     (case currentState now b of
        (current, b') \<Rightarrow> (current = CLOSED \<or> current = HALF_OPEN, b'))"

definition reset :: "CircuitBreaker \<Rightarrow> CircuitBreaker" where
  "reset b = b\<lparr>cb_state := CLOSED, cb_failures := [], cb_lastOpenedAt := 0\<rparr>"

text \<open>A run of \<^verbatim>\<open>recordFailure\<close> calls, one per clock reading, oldest first.\<close>

definition recordFailures :: "int list \<Rightarrow> CircuitBreaker \<Rightarrow> CircuitBreaker" where
  "recordFailures ts b = foldl (\<lambda>b t. recordFailure t b) b ts"

section \<open>Health tracker and connection pool (rpc/health-tracker.ts, rpc/connection-pool.ts)\<close>

text \<open>A connection is identified by the URL it was opened on. Latencies and the moving
  average are real numbers (the source computes in double precision).\<close>

record RpcEndpointConfig =
  ep_url :: string
  ep_weight :: "int option"
  ep_rateLimit :: "int option"
  ep_label :: "string option"

datatype Connection = Connection string

text \<open>The optional \<^verbatim>\<open>Logger\<close> of types.ts is an object outside the tracker and the pool; it
  is identified by a name. A holder whose logger is absent (\<open>None\<close>) makes no call at all:
  every \<^verbatim>\<open>this.logger?.warn(msg, data)\<close> of the source is \<open>logger_warn\<close>, which appends
  the call (message and optional data object) to the calls the holder has made on its
  logger, and does nothing without a logger.\<close>

datatype Logger = Logger string

type_synonym WarnCall = "string \<times> (string \<times> js_value) list option"

definition logger_warn :: "Logger option \<Rightarrow> WarnCall \<Rightarrow> WarnCall list \<Rightarrow> WarnCall list" where
  "logger_warn logger call calls = (case logger of Some l \<Rightarrow> calls @ [call] | None \<Rightarrow> calls)"

text \<open>The string values of the \<^verbatim>\<open>CircuitState\<close> enum (rpc/types.ts).\<close>

fun CircuitState_value :: "CircuitState \<Rightarrow> string" where
  "CircuitState_value CLOSED = ''closed''"
| "CircuitState_value OPEN = ''open''"
| "CircuitState_value HALF_OPEN = ''half_open''"

record HealthMetrics =
  latencyEma :: real
  errorCount :: nat
  successCount :: nat
  errorRate :: real
  lastSlot :: int
  slotLag :: int
  lastSuccessAt :: int
  circuitState :: CircuitState

record HealthTracker =
  ht_endpoint :: RpcEndpointConfig
  ht_connection :: Connection
  ht_logger :: "Logger option"
  ht_breaker :: CircuitBreaker
  ht_metrics :: HealthMetrics
  ht_warnings :: "WarnCall list"

definition EMA_ALPHA :: real where
  "EMA_ALPHA = 0.3"

definition new_HealthTracker ::
  "RpcEndpointConfig \<Rightarrow> Connection \<Rightarrow> Logger option
     \<Rightarrow> PartialCircuitBreakerConfig option \<Rightarrow> HealthTracker" where
  "new_HealthTracker endpoint connection logger circuitBreakerConfig =
     \<lparr>ht_endpoint = endpoint, ht_connection = connection, ht_logger = logger,
      ht_breaker = new_CircuitBreaker circuitBreakerConfig,
      ht_metrics = \<lparr>latencyEma = 0, errorCount = 0, successCount = 0, errorRate = 0,
                     lastSlot = 0, slotLag = 0, lastSuccessAt = 0, circuitState = CLOSED\<rparr>,
      ht_warnings = []\<rparr>"

definition updateErrorRate :: "HealthMetrics \<Rightarrow> HealthMetrics" where
  "updateErrorRate m =
     (let total = successCount m + errorCount m
      in m\<lparr>errorRate := (if total > 0 then real (errorCount m) / real total else 0)\<rparr>)"

text \<open>\<^verbatim>\<open>HealthTracker.recordSuccess(latencyMs, slot?)\<close>; \<open>now\<close> is the clock reading stored
  in \<open>lastSuccessAt\<close>, \<open>now'\<close> the reading of the final state read.\<close>

definition tracker_recordSuccess ::
  "real \<Rightarrow> int option \<Rightarrow> int \<Rightarrow> int \<Rightarrow> HealthTracker \<Rightarrow> HealthTracker" where
  "tracker_recordSuccess latencyMs slot now now' t =
     (let m1 = (ht_metrics t)\<lparr>successCount := successCount (ht_metrics t) + 1,
                               lastSuccessAt := now\<rparr>;
          m2 = (if latencyEma m1 = 0
                then m1\<lparr>latencyEma := latencyMs\<rparr>
                else m1\<lparr>latencyEma := EMA_ALPHA * latencyMs + (1 - EMA_ALPHA) * latencyEma m1\<rparr>);
          m3 = (case slot of Some sl \<Rightarrow> m2\<lparr>lastSlot := sl\<rparr> | None \<Rightarrow> m2);
          b1 = recordSuccess (ht_breaker t);
          m4 = updateErrorRate m3;
          (st, b2) = currentState now' b1
      in t\<lparr>ht_breaker := b2, ht_metrics := m4\<lparr>circuitState := st\<rparr>\<rparr>)"

definition endpoint_name :: "RpcEndpointConfig \<Rightarrow> string" where
  "endpoint_name e = (case ep_label e of Some l \<Rightarrow> l | None \<Rightarrow> ep_url e)"

definition tracker_recordFailure :: "js_error \<Rightarrow> int \<Rightarrow> int \<Rightarrow> HealthTracker \<Rightarrow> HealthTracker" where
  "tracker_recordFailure error now now' t =
     (let m1 = (ht_metrics t)\<lparr>errorCount := errorCount (ht_metrics t) + 1\<rparr>;
          b1 = recordFailure now (ht_breaker t);
          m2 = updateErrorRate m1;
          (st, b2) = currentState now' b1
      in t\<lparr>ht_breaker := b2, ht_metrics := m2\<lparr>circuitState := st\<rparr>,
            ht_warnings :=
              logger_warn (ht_logger t)
                (''RPC endpoint '' @ endpoint_name (ht_endpoint t) @ '' error'',
                 Some [(''error'', JStr (message error)),
                       (''circuitState'', JStr (CircuitState_value st))])
                (ht_warnings t)\<rparr>)"

definition isAvailable :: "int \<Rightarrow> HealthTracker \<Rightarrow> bool \<times> HealthTracker" where
  "isAvailable now t =
     (case canExecute now (ht_breaker t) of (ok, b) \<Rightarrow> (ok, t\<lparr>ht_breaker := b\<rparr>))"

definition getMetrics :: "int \<Rightarrow> HealthTracker \<Rightarrow> HealthMetrics \<times> HealthTracker" where
  "getMetrics now t =
     (case currentState now (ht_breaker t) of
        (st, b) \<Rightarrow>
          (let m = (ht_metrics t)\<lparr>circuitState := st\<rparr>
           in (m, t\<lparr>ht_breaker := b, ht_metrics := m\<rparr>)))"

definition updateSlotLag :: "int \<Rightarrow> HealthTracker \<Rightarrow> HealthTracker" where
  "updateSlotLag highestSlot t =
     t\<lparr>ht_metrics := (ht_metrics t)\<lparr>slotLag := highestSlot - lastSlot (ht_metrics t)\<rparr>\<rparr>"

definition tracker_getConnection :: "HealthTracker \<Rightarrow> Connection" where
  "tracker_getConnection t = ht_connection t"

text \<open>\<^verbatim>\<open>healthCheck()\<close>: \<open>rpc\<close> is the outcome of \<^verbatim>\<open>connection.getSlot()\<close>; \<open>start\<close> and
  \<open>now\<close> are the clock readings before and after the call.\<close>

definition healthCheck :: "(thrown + int) \<Rightarrow> int \<Rightarrow> int \<Rightarrow> HealthTracker \<Rightarrow> HealthTracker" where
  "healthCheck rpc start now t =
     (case rpc of
        Inr slot \<Rightarrow> tracker_recordSuccess (real_of_int (now - start)) (Some slot) now now t
      | Inl err \<Rightarrow> tracker_recordFailure (to_error err) now now t)"

subsection \<open>Connection pool\<close>

datatype Strategy = WeightedRoundRobin | LatencyBased

record ConnectionPoolConfig =
  cp_endpoints :: "RpcEndpointConfig list"
  cp_strategy :: "Strategy option"
  cp_healthCheckIntervalMs :: "int option"
  cp_circuitBreaker :: "PartialCircuitBreakerConfig option"
  cp_healthCheckCommitment :: "string option"

record ConnectionPool =
  trackers :: "HealthTracker list"
  healthCheckInterval :: "int option"
  roundRobinIndex :: nat
  strategy :: Strategy
  pool_logger :: "Logger option"
  pool_warnings :: "WarnCall list"

definition new_ConnectionPool :: "ConnectionPoolConfig \<Rightarrow> Logger option \<Rightarrow> ConnectionPool" where
  "new_ConnectionPool config logger =
     \<lparr>trackers = map (\<lambda>endpoint. new_HealthTracker endpoint (Connection (ep_url endpoint))
                                    logger (cp_circuitBreaker config))
                     (cp_endpoints config),
      healthCheckInterval =
        Some (case cp_healthCheckIntervalMs config of Some i \<Rightarrow> i | None \<Rightarrow> 10000),
      roundRobinIndex = 0,
      strategy = (case cp_strategy config of Some s \<Rightarrow> s | None \<Rightarrow> WeightedRoundRobin),
      pool_logger = logger,
      pool_warnings = []\<rparr>"

text \<open>\<^verbatim>\<open>this.trackers.filter((t) => t.isAvailable())\<close>: every tracker's breaker is read (and
  possibly promoted); the result pairs each updated tracker with its availability.\<close>

definition read_availability :: "int \<Rightarrow> HealthTracker list \<Rightarrow> (bool \<times> HealthTracker) list" where
  "read_availability now ts = map (isAvailable now) ts"

definition weight_of :: "HealthTracker \<Rightarrow> int" where
  "weight_of t = (case ep_weight (ht_endpoint t) of Some w \<Rightarrow> w | None \<Rightarrow> 1)"

text \<open>The walk of \<^verbatim>\<open>selectByWeight\<close> over the available trackers.\<close>

fun walk_weights :: "int \<Rightarrow> int \<Rightarrow> HealthTracker list \<Rightarrow> Connection option" where
  "walk_weights position cumulative [] = None"
| "walk_weights position cumulative (t # ts) =
     (let cumulative' = cumulative + weight_of t
      in if position < cumulative' then Some (tracker_getConnection t)
         else walk_weights position cumulative' ts)"

text \<open>JavaScript's \<^verbatim>\<open>%\<close> on a non-negative left operand: \<^verbatim>\<open>NaN\<close> (here \<open>None\<close>) for a zero
  divisor, otherwise the remainder by the divisor's magnitude.\<close>

definition js_rem :: "nat \<Rightarrow> int \<Rightarrow> int option" where
  "js_rem a b = (if b = 0 then None else Some (int a mod \<bar>b\<bar>))"

definition selectByWeight ::
  "HealthTracker list \<Rightarrow> ConnectionPool \<Rightarrow> (js_error + Connection) \<times> ConnectionPool" where
  "selectByWeight available pool =
     (let totalWeight = sum_list (map weight_of available);
          position = js_rem (roundRobinIndex pool) totalWeight;
          pool' = pool\<lparr>roundRobinIndex := roundRobinIndex pool + 1\<rparr>
      in case (case position of None \<Rightarrow> None | Some p \<Rightarrow> walk_weights p 0 available) of
           Some c \<Rightarrow> (Inr c, pool')
         | None \<Rightarrow>
             (Inl (SolTxError ALL_ENDPOINTS_UNHEALTHY ''No weighted endpoint available'' None []),
              pool'))"

text \<open>\<^verbatim>\<open>selectByLatency\<close>: a stable ascending sort by \<open>latencyEma\<close>, then the first element.
  The comparator reads the metrics through \<^verbatim>\<open>getMetrics()\<close>, which refreshes the stored
  \<open>circuitState\<close> of every tracker it compares (all of them, when there are at least two);
  \<^verbatim>\<open>getConnection\<close> below accounts for that.\<close>

definition selectByLatency :: "HealthTracker list \<Rightarrow> js_error + Connection" where
  "selectByLatency available =
     (case sort_key (\<lambda>t. latencyEma (ht_metrics t)) available of
        [] \<Rightarrow> Inl (SolTxError ALL_ENDPOINTS_UNHEALTHY ''No endpoints available'' None [])
      | best # rest \<Rightarrow> Inr (tracker_getConnection best))"

definition getConnection :: "int \<Rightarrow> ConnectionPool \<Rightarrow> (js_error + Connection) \<times> ConnectionPool" where
  "getConnection now pool =
     (let read = read_availability now (trackers pool);
          pool1 = pool\<lparr>trackers := map snd read\<rparr>;
          available = map snd (filter fst read)
      in if length available = 0 then
           (let pool2 = pool1\<lparr>pool_warnings :=
                  logger_warn (pool_logger pool1)
                    (''All RPC endpoints unhealthy, using first endpoint as fallback'', None)
                    (pool_warnings pool1)\<rparr>
            in case trackers pool2 of
                 [] \<Rightarrow>
                   (Inl (SolTxError ALL_ENDPOINTS_UNHEALTHY
                           ''No RPC endpoints configured. Call .rpc() or .rpcPool() in the builder.''
                           None []),
                    pool2)
               | fallback # rest \<Rightarrow> (Inr (tracker_getConnection fallback), pool2))
         else if strategy pool1 = LatencyBased then
           (selectByLatency available,
            pool1\<lparr>trackers :=
                    map (\<lambda>(ok, t). if ok \<and> length available \<ge> 2 then snd (getMetrics now t) else t)
                      read\<rparr>)
         else selectByWeight available pool1)"

section \<open>Blockhash manager (blockhash/blockhash-manager.ts)\<close>

record BlockhashInfo =
  blockhash :: string
  lastValidBlockHeight :: int
  fetchedAt :: int

record BlockhashManagerConfig =
  ttlMs :: int
  refreshIntervalMs :: int
  bm_commitment :: string

record PartialBlockhashManagerConfig =
  p_ttlMs :: "int option"
  p_refreshIntervalMs :: "int option"
  p_commitment :: "string option"

text \<open>The manager. \<open>fetchPromise\<close> holds the settlement of the fetch in flight, if any;
  \<open>bm_rpc_calls\<close> counts the calls of \<^verbatim>\<open>connection.getLatestBlockhash\<close> made so far.\<close>

record BlockhashManager =
  bm_cache :: "BlockhashInfo option"
  bm_refreshInterval :: "int option"
  bm_fetchPromise :: "(js_error + BlockhashInfo) option"
  bm_config :: BlockhashManagerConfig
  bm_rpc_calls :: nat

definition new_BlockhashManager :: "PartialBlockhashManagerConfig option \<Rightarrow> BlockhashManager" where
  "new_BlockhashManager config =
     \<lparr>bm_cache = None, bm_refreshInterval = None, bm_fetchPromise = None,
      bm_config =
        (case config of
           None \<Rightarrow> \<lparr>ttlMs = 60000, refreshIntervalMs = 30000, bm_commitment = ''confirmed''\<rparr>
         | Some c \<Rightarrow>
             \<lparr>ttlMs = (case p_ttlMs c of None \<Rightarrow> 60000 | Some v \<Rightarrow> v),
              refreshIntervalMs = (case p_refreshIntervalMs c of None \<Rightarrow> 30000 | Some v \<Rightarrow> v),
              bm_commitment = (case p_commitment c of None \<Rightarrow> ''confirmed'' | Some v \<Rightarrow> v)\<rparr>),
      bm_rpc_calls = 0\<rparr>"

definition isStale :: "int \<Rightarrow> BlockhashManager \<Rightarrow> BlockhashInfo \<Rightarrow> bool" where
  "isStale now m info = (now - fetchedAt info > ttlMs (bm_config m))"

text \<open>\<^verbatim>\<open>fetchBlockhash()\<close>: one call of \<^verbatim>\<open>getLatestBlockhash\<close>, whose outcome is \<open>rpc\<close>;
  \<open>now\<close> is the clock reading when the answer arrives.\<close>

definition fetchBlockhash ::
  "(thrown + string \<times> int) \<Rightarrow> int \<Rightarrow> BlockhashManager
     \<Rightarrow> (js_error + BlockhashInfo) \<times> BlockhashManager" where
  "fetchBlockhash rpc now m =
     (let m' = m\<lparr>bm_rpc_calls := bm_rpc_calls m + 1\<rparr>
      in case rpc of
           Inr (h, lvbh) \<Rightarrow>
             (Inr \<lparr>blockhash = h, lastValidBlockHeight = lvbh, fetchedAt = now\<rparr>, m')
         | Inl err \<Rightarrow>
             (Inl (SolTxError BLOCKHASH_FETCH_FAILED
                     ''Failed to fetch blockhash. Verify your RPC endpoint is reachable and responding.''
                     (Some (to_error err)) []),
              m'))"

definition refreshBlockhash ::
  "(thrown + string \<times> int) \<Rightarrow> int \<Rightarrow> BlockhashManager
     \<Rightarrow> (js_error + BlockhashInfo) \<times> BlockhashManager" where
  "refreshBlockhash rpc now m =
     (case bm_fetchPromise m of
        Some settled \<Rightarrow> (settled, m)
      | None \<Rightarrow>
          (case fetchBlockhash rpc now m of
             (Inr info, m1) \<Rightarrow> (Inr info, m1\<lparr>bm_cache := Some info, bm_fetchPromise := None\<rparr>)
           | (Inl e, m1) \<Rightarrow> (Inl e, m1\<lparr>bm_fetchPromise := None\<rparr>)))"

text \<open>\<^verbatim>\<open>getBlockhash()\<close>: \<open>now\<close> is the clock reading of the staleness test, \<open>rpc\<close> and
  \<open>now'\<close> the outcome and the arrival time of the fetch, used only when one is made.\<close>

definition getBlockhash ::
  "int \<Rightarrow> (thrown + string \<times> int) \<Rightarrow> int \<Rightarrow> BlockhashManager
     \<Rightarrow> (js_error + BlockhashInfo) \<times> BlockhashManager" where
  "getBlockhash now rpc now' m =
     (case bm_cache m of
        Some c \<Rightarrow> if \<not> isStale now m c then (Inr c, m) else refreshBlockhash rpc now' m
      | None \<Rightarrow> refreshBlockhash rpc now' m)"

definition getCachedBlockhash :: "int \<Rightarrow> BlockhashManager \<Rightarrow> BlockhashInfo option" where
  "getCachedBlockhash now m =
     (case bm_cache m of
        Some c \<Rightarrow> if \<not> isStale now m c then Some c else None
      | None \<Rightarrow> None)"

definition isBlockhashValid :: "(thrown + int) \<Rightarrow> BlockhashManager \<Rightarrow> bool" where
  "isBlockhashValid rpc m =
     (case bm_cache m of
        None \<Rightarrow> False
      | Some c \<Rightarrow> (case rpc of Inr currentHeight \<Rightarrow> currentHeight < lastValidBlockHeight c
                              | Inl err \<Rightarrow> False))"

definition bm_start :: "int \<Rightarrow> BlockhashManager \<Rightarrow> BlockhashManager" where
  "bm_start handle m =
     (case bm_refreshInterval m of Some h \<Rightarrow> m | None \<Rightarrow> m\<lparr>bm_refreshInterval := Some handle\<rparr>)"

definition bm_destroy :: "BlockhashManager \<Rightarrow> BlockhashManager" where
  "bm_destroy m = m\<lparr>bm_refreshInterval := None\<rparr>"

section \<open>Priority-fee estimator (priority-fee/fee-estimator.ts)\<close>

text \<open>Fee samples are the unsigned integers the node reports; the configured bounds are
  integers. The percentile index is computed in exact arithmetic.\<close>

datatype TargetPercentile = P50 | P75 | P90

record FeeEstimateConfig =
  targetPercentile :: TargetPercentile
  maxMicroLamports :: int
  minMicroLamports :: int
  writableAccounts :: "string list option"

record PartialFeeEstimateConfig =
  p_targetPercentile :: "TargetPercentile option"
  p_maxMicroLamports :: "int option"
  p_minMicroLamports :: "int option"
  p_writableAccounts :: "string list option"

record PrioritizationFee =
  pf_slot :: nat
  prioritizationFee :: nat

record FeeEstimateResult =
  fe_microLamports :: int
  fe_p50 :: int
  fe_p75 :: int
  fe_p90 :: int
  fe_sampleCount :: nat

definition defaultComputeUnits :: int where
  "defaultComputeUnits = 200000"

definition resolve_fee_config :: "PartialFeeEstimateConfig option \<Rightarrow> FeeEstimateConfig" where
  "resolve_fee_config config =
     (case config of
        None \<Rightarrow>
          \<lparr>targetPercentile = P75, maxMicroLamports = 1000000, minMicroLamports = 1000,
           writableAccounts = None\<rparr>
      | Some c \<Rightarrow>
          \<lparr>targetPercentile = (case p_targetPercentile c of None \<Rightarrow> P75 | Some v \<Rightarrow> v),
           maxMicroLamports = (case p_maxMicroLamports c of None \<Rightarrow> 1000000 | Some v \<Rightarrow> v),
           minMicroLamports = (case p_minMicroLamports c of None \<Rightarrow> 1000 | Some v \<Rightarrow> v),
           writableAccounts = p_writableAccounts c\<rparr>)"

definition percentile :: "int list \<Rightarrow> real \<Rightarrow> int" where
  "percentile sorted_fees p =
     (if length sorted_fees = 0 then 0
      else
        (let index = \<lceil>(p / 100) * real (length sorted_fees)\<rceil> - 1;
             i = nat (max 0 index)
         in if i < length sorted_fees then sorted_fees ! i else 0))"

definition estimatePriorityFee ::
  "(thrown + PrioritizationFee list) \<Rightarrow> PartialFeeEstimateConfig option
     \<Rightarrow> js_error + FeeEstimateResult" where
  "estimatePriorityFee rpc config =
     (let resolved = resolve_fee_config config in
      case rpc of
        Inl err \<Rightarrow>
          Inl (SolTxError FEE_ESTIMATION_FAILED
                 ''Failed to estimate priority fees. Use disablePriorityFees() or pass { priorityFee: { microLamports: N } } as a static override.''
                 (Some (to_error err)) [])
      | Inr fees \<Rightarrow>
          (let feeValues = sort (filter (\<lambda>f. f > 0) (map (\<lambda>f. int (prioritizationFee f)) fees));
               p50 = percentile feeValues 50;
               p75 = percentile feeValues 75;
               p90 = percentile feeValues 90;
               target = (case targetPercentile resolved of
                           P50 \<Rightarrow> p50
                         | P90 \<Rightarrow> p90
                         | _ \<Rightarrow> p75);
               clamped = min (max target (minMicroLamports resolved)) (maxMicroLamports resolved)
           in Inr \<lparr>fe_microLamports = clamped, fe_p50 = p50, fe_p75 = p75, fe_p90 = p90,
                   fe_sampleCount = length feeValues\<rparr>))"

text \<open>The specification's wording, for comparison: the percentile number of a target, the
  nearest-rank value of a sorted list (the index clamped to \<open>[0, n - 1]\<close>), and the
  samples with the zero-valued ones discarded, sorted ascending.\<close>

definition percentile_of :: "TargetPercentile \<Rightarrow> real" where
  "percentile_of t = (case t of P50 \<Rightarrow> 50 | P75 \<Rightarrow> 75 | P90 \<Rightarrow> 90)"

definition nearest_rank :: "int list \<Rightarrow> real \<Rightarrow> int" where
  "nearest_rank vs p =
     vs ! nat (min (int (length vs) - 1) (max 0 (\<lceil>(p / 100) * real (length vs)\<rceil> - 1)))"

definition nonzero_sorted :: "PrioritizationFee list \<Rightarrow> int list" where
  "nonzero_sorted fees = sort (filter (\<lambda>f. f \<noteq> 0) (map (\<lambda>f. int (prioritizationFee f)) fees))"

section \<open>Send pipeline (sender/transaction-sender.ts)\<close>

subsection \<open>Transactions and the object store\<close>

text \<open>
  Transactions are objects: the caller and the pipeline hold references to them, and signing
  mutates the object it is given. The store is a list of objects, a reference is an index
  into it, and \<^verbatim>\<open>new Transaction()\<close> appends a fresh object. The primitives of the Solana
  client library (key pairs, instruction encoding, signing, serialisation) are outside the
  repository: a key pair is represented by its public key, the compute-budget payloads by
  constructors, and the two \<^verbatim>\<open>sign\<close> methods are parameters of the model.
\<close>

datatype Keypair = Keypair string

fun publicKey :: "Keypair \<Rightarrow> string" where
  "publicKey (Keypair k) = k"

datatype InstructionData = SetComputeUnitLimit int | SetComputeUnitPrice int | OtherData "nat list"

record TransactionInstruction =
  programId :: string
  ix_keys :: "string list"
  ix_data :: InstructionData

definition ComputeBudgetProgram_programId :: string where
  "ComputeBudgetProgram_programId = ''ComputeBudget111111111111111111111111111111''"

definition setComputeUnitLimit :: "int \<Rightarrow> TransactionInstruction" where
  "setComputeUnitLimit units =
     \<lparr>programId = ComputeBudgetProgram_programId, ix_keys = [],
      ix_data = SetComputeUnitLimit units\<rparr>"

definition setComputeUnitPrice :: "int \<Rightarrow> TransactionInstruction" where
  "setComputeUnitPrice microLamports =
     \<lparr>programId = ComputeBudgetProgram_programId, ix_keys = [],
      ix_data = SetComputeUnitPrice microLamports\<rparr>"

definition createComputeBudgetInstructions :: "int \<Rightarrow> int \<Rightarrow> TransactionInstruction list" where
  "createComputeBudgetInstructions computeUnits microLamports =
     [setComputeUnitLimit computeUnits, setComputeUnitPrice microLamports]"

record LegacyTransaction =
  instructions :: "TransactionInstruction list"
  recentBlockhash :: "string option"
  feePayer :: "string option"
  signatures :: "(string \<times> string) list"

record VersionedMessage =
  vm_recentBlockhash :: string
  vm_compiledInstructions :: "TransactionInstruction list"

record VersionedTransaction =
  version :: nat
  vt_message :: VersionedMessage
  vt_signatures :: "(string \<times> string) list"

datatype SolanaTransaction = Legacy LegacyTransaction | Versioned VersionedTransaction

fun isVersionedTransaction :: "SolanaTransaction \<Rightarrow> bool" where
  "isVersionedTransaction (Versioned v) = True"
| "isVersionedTransaction (Legacy t) = False"

definition isLegacyTransaction :: "SolanaTransaction \<Rightarrow> bool" where
  "isLegacyTransaction tx = (\<not> isVersionedTransaction tx)"

definition new_Transaction :: LegacyTransaction where
  "new_Transaction = \<lparr>instructions = [], recentBlockhash = None, feePayer = None, signatures = []\<rparr>"

definition tx_add :: "LegacyTransaction \<Rightarrow> TransactionInstruction \<Rightarrow> LegacyTransaction" where
  "tx_add t ix = t\<lparr>instructions := instructions t @ [ix]\<rparr>"

fun instructions_of :: "SolanaTransaction \<Rightarrow> TransactionInstruction list" where
  "instructions_of (Legacy t) = instructions t"
| "instructions_of (Versioned v) = vm_compiledInstructions (vt_message v)"

subsection \<open>Simulation (simulation/simulator.ts)\<close>

record SimulationConfig =
  sc_commitment :: "string option"
  sc_replaceRecentBlockhash :: "bool option"
  sc_sigVerify :: "bool option"

text \<open>The \<^verbatim>\<open>err\<close> field of the RPC answer: a string, or an object given by its JSON rendering,
  its \<^verbatim>\<open>code\<close> property if it has one and its \<^verbatim>\<open>InstructionError\<close> pair if it has one.\<close>

datatype SimErr = SimErrString string | SimErrObject string "int option" "(int \<times> string) option"

record RpcSimulation =
  rs_err :: "SimErr option"
  rs_logs :: "string list option"
  rs_unitsConsumed :: "int option"

record SimulationError =
  se_code :: int
  se_message :: string
  se_instructionError :: "(int \<times> string) option"

record SimulationResult =
  sr_success :: bool
  sr_unitsConsumed :: int
  sr_logs :: "string list"
  sr_error :: "SimulationError option"

fun sim_err_truthy :: "SimErr option \<Rightarrow> bool" where
  "sim_err_truthy None = False"
| "sim_err_truthy (Some (SimErrString s)) = (s \<noteq> [])"
| "sim_err_truthy (Some (SimErrObject j c i)) = True"

fun sim_error_of :: "SimErr \<Rightarrow> SimulationError" where
  "sim_error_of (SimErrString s) =
     \<lparr>se_code = - 1, se_message = s, se_instructionError = None\<rparr>"
| "sim_error_of (SimErrObject j c i) =
     \<lparr>se_code = (case c of Some k \<Rightarrow> k | None \<Rightarrow> - 1), se_message = j,
      se_instructionError = i\<rparr>"

text \<open>\<^verbatim>\<open>simulateTransaction(connection, transaction, config, logger)\<close>; \<open>rpc\<close> is the outcome
  of \<^verbatim>\<open>connection.simulateTransaction\<close>.\<close>

definition simulateTransaction :: "(thrown + RpcSimulation) \<Rightarrow> js_error + SimulationResult" where
  "simulateTransaction rpc =
     (case rpc of
        Inl err \<Rightarrow>
          Inl (SolTxError SIMULATION_FAILED
                 (''Transaction simulation failed: '' @ message (to_error err))
                 (Some (to_error err)) [])
      | Inr v \<Rightarrow>
          (let units = (case rs_unitsConsumed v of Some u \<Rightarrow> u | None \<Rightarrow> 0);
               logs = (case rs_logs v of Some l \<Rightarrow> l | None \<Rightarrow> [])
           in if sim_err_truthy (rs_err v)
              then Inr \<lparr>sr_success = False, sr_unitsConsumed = units, sr_logs = logs,
                        sr_error = map_option sim_error_of (rs_err v)\<rparr>
              else Inr \<lparr>sr_success = True, sr_unitsConsumed = units, sr_logs = logs,
                        sr_error = None\<rparr>))"

subsection \<open>Configuration, options, events and the world of a send\<close>

datatype 'a OrFalse = IsFalse | Undefined | Given 'a

datatype PriorityFeeOption = StaticFee int | EstimateFee PartialFeeEstimateConfig

datatype ConfirmationStatus = StatusConfirmed | StatusFinalized | StatusExpired | StatusFailed

record ConfirmationResult =
  cr_status :: ConfirmationStatus
  cr_slot :: "int option"
  cr_error :: "(int \<times> string) option"
  cr_latencyMs :: int

datatype TxEventData =
    Ev_SENDING nat nat
  | Ev_SIMULATED string int "string list"
  | Ev_SENT string nat
  | Ev_CONFIRMED string int string
  | Ev_RETRYING nat nat js_error real
  | Ev_BLOCKHASH_EXPIRED string string

text \<open>The world a send acts on: the object store, the events emitted so far, the calls of
  \<^verbatim>\<open>simulateTransaction\<close> made so far (reference, object as passed, simulation config) and the
  transactions handed to \<^verbatim>\<open>sendRawTransaction\<close> so far (reference, object as serialised).\<close>

record SendWorld =
  heap :: "SolanaTransaction list"
  events :: "TxEventData list"
  simulate_calls :: "(nat \<times> SolanaTransaction \<times> SimulationConfig option) list"
  submitted :: "(nat \<times> SolanaTransaction) list"

record SenderConfig =
  cfg_signer :: Keypair
  cfg_extraSigners :: "Keypair list option"
  cfg_retry :: "SendWorld PartialRetryConfig option"
  cfg_priorityFee :: "PartialFeeEstimateConfig OrFalse"
  cfg_simulation :: "SimulationConfig OrFalse"
  cfg_commitment :: "string option"

record SendOptions =
  opt_priorityFee :: "PriorityFeeOption option"
  opt_computeUnits :: "int option"
  opt_retry :: "SendWorld PartialRetryConfig option"
  opt_skipSimulation :: "bool option"
  opt_skipConfirmation :: "bool option"
  opt_commitment :: "string option"
  opt_extraSigners :: "Keypair list option"

record SendResult =
  res_signature :: string
  res_slot :: int
  res_commitment :: string
  res_attempts :: nat
  res_totalLatencyMs :: int
  res_unitsConsumed :: "int option"
  res_priorityFee :: "int option"

text \<open>
  The collaborators of a send, as the outcomes they give: the two \<^verbatim>\<open>sign\<close> methods of the
  client library; \<^verbatim>\<open>pool.getConnection()\<close> at its three call sites (\<open>None\<close>: a connection
  is returned); the RPC answers; \<^verbatim>\<open>blockhashManager.getBlockhash()\<close>, its cache reads and
  \<^verbatim>\<open>refreshBlockhash()\<close>; \<^verbatim>\<open>pool.withFallback\<close> around serialisation and submission;
  \<^verbatim>\<open>confirmer.confirm\<close>; and the clock. Outcomes inside the retry loop are indexed by the
  attempt.
\<close>

record SendEnv =
  env_sign_legacy :: "LegacyTransaction \<Rightarrow> Keypair list \<Rightarrow> thrown + LegacyTransaction"
  env_sign_versioned :: "VersionedTransaction \<Rightarrow> Keypair list \<Rightarrow> thrown + VersionedTransaction"
  env_feeConnection :: "js_error option"
  env_recentFees :: "thrown + PrioritizationFee list"
  env_getBlockhash :: "nat \<Rightarrow> js_error + BlockhashInfo"
  env_simConnection :: "nat \<Rightarrow> js_error option"
  env_rpcSimulate :: "nat \<Rightarrow> thrown + RpcSimulation"
  env_sendRaw :: "nat \<Rightarrow> SolanaTransaction \<Rightarrow> js_error + string"
  env_confirmConnection :: "nat \<Rightarrow> js_error option"
  env_confirm :: "nat \<Rightarrow> string \<Rightarrow> int \<Rightarrow> thrown + ConfirmationResult"
  env_cachedBefore :: "nat \<Rightarrow> BlockhashInfo option"
  env_refresh :: "nat \<Rightarrow> js_error option"
  env_cachedAfter :: "nat \<Rightarrow> BlockhashInfo option"
  env_startTime :: int
  env_resultTime :: "nat \<Rightarrow> int"
  env_retryClock :: RetryClock

definition emit :: "TxEventData \<Rightarrow> SendWorld \<Rightarrow> SendWorld" where
  "emit e w = w\<lparr>events := events w @ [e]\<rparr>"

subsection \<open>The steps of a send\<close>

definition compute_units_of :: "SendOptions option \<Rightarrow> int" where
  "compute_units_of options =
     (case (case options of None \<Rightarrow> None | Some opts \<Rightarrow> opt_computeUnits opts) of
        Some u \<Rightarrow> u
      | None \<Rightarrow> defaultComputeUnits)"

definition resolvePriorityFee ::
  "SenderConfig \<Rightarrow> SendEnv \<Rightarrow> SendOptions option \<Rightarrow> js_error + int" where
  "resolvePriorityFee cfg env options =
     (case (case options of None \<Rightarrow> None | Some opts \<Rightarrow> opt_priorityFee opts) of
        Some (StaticFee microLamports) \<Rightarrow> Inr microLamports
      | pf \<Rightarrow>
          (case env_feeConnection env of
             Some e \<Rightarrow> Inl e
           | None \<Rightarrow>
               (let feeConfig =
                      (case pf of
                         Some (EstimateFee c) \<Rightarrow> Some c
                       | _ \<Rightarrow> (case cfg_priorityFee cfg of Given c \<Rightarrow> Some c | _ \<Rightarrow> None))
                in case estimatePriorityFee (env_recentFees env) feeConfig of
                     Inl e \<Rightarrow> Inl e
                   | Inr result \<Rightarrow> Inr (fe_microLamports result))))"

text \<open>\<^verbatim>\<open>prepareTransaction\<close>: returns the reference of the working transaction and the fee.\<close>

definition prepareTransaction ::
  "SenderConfig \<Rightarrow> SendEnv \<Rightarrow> nat \<Rightarrow> SendOptions option \<Rightarrow> SendWorld
     \<Rightarrow> (js_error + nat \<times> int option) \<times> SendWorld" where
  "prepareTransaction cfg env transaction options w =
     (if cfg_priorityFee cfg \<noteq> IsFalse \<and> isLegacyTransaction (heap w ! transaction) then
        (case resolvePriorityFee cfg env options of
           Inl e \<Rightarrow> (Inl e, w)
         | Inr feeAmount \<Rightarrow>
             (let computeUnits = compute_units_of options;
                  budgetInstructions = createComputeBudgetInstructions computeUnits feeAmount;
                  copy0 = new_Transaction;
                  copy1 = foldl tx_add copy0 budgetInstructions;
                  copy2 = foldl (\<lambda>c ix. if programId ix \<noteq> ComputeBudgetProgram_programId
                                         then tx_add c ix else c)
                            copy1 (instructions_of (heap w ! transaction))
              in (Inr (length (heap w), Some feeAmount), w\<lparr>heap := heap w @ [Legacy copy2]\<rparr>)))
      else (Inr (transaction, None), w))"

text \<open>\<^verbatim>\<open>signTransaction\<close>: the two assignments are made before the library signs, so they
  stay when signing throws.\<close>

definition signTransaction ::
  "SenderConfig \<Rightarrow> SendEnv \<Rightarrow> nat \<Rightarrow> BlockhashInfo \<Rightarrow> Keypair list option \<Rightarrow> SendWorld
     \<Rightarrow> thrown option \<times> SendWorld" where
  "signTransaction cfg env tx blockhashInfo extraSigners w =
     (let allSigners = [cfg_signer cfg]
            @ (case cfg_extraSigners cfg of Some ks \<Rightarrow> ks | None \<Rightarrow> [])
            @ (case extraSigners of Some ks \<Rightarrow> ks | None \<Rightarrow> [])
      in case heap w ! tx of
           Legacy t \<Rightarrow>
             (let t1 = t\<lparr>recentBlockhash := Some (blockhash blockhashInfo),
                         feePayer := Some (publicKey (cfg_signer cfg))\<rparr>
              in case env_sign_legacy env t1 allSigners of
                   Inr t2 \<Rightarrow> (None, w\<lparr>heap := (heap w)[tx := Legacy t2]\<rparr>)
                 | Inl e \<Rightarrow> (Some e, w\<lparr>heap := (heap w)[tx := Legacy t1]\<rparr>))
         | Versioned v \<Rightarrow>
             (let v1 = v\<lparr>vt_message := (vt_message v)\<lparr>vm_recentBlockhash := blockhash blockhashInfo\<rparr>\<rparr>
              in case env_sign_versioned env v1 allSigners of
                   Inr v2 \<Rightarrow> (None, w\<lparr>heap := (heap w)[tx := Versioned v2]\<rparr>)
                 | Inl e \<Rightarrow> (Some e, w\<lparr>heap := (heap w)[tx := Versioned v1]\<rparr>)))"

definition skip_simulation :: "SenderConfig \<Rightarrow> SendOptions option \<Rightarrow> bool" where
  "skip_simulation cfg options =
     (case (case options of None \<Rightarrow> None | Some opts \<Rightarrow> opt_skipSimulation opts) of
        Some b \<Rightarrow> b
      | None \<Rightarrow> cfg_simulation cfg = IsFalse)"

definition runSimulation ::
  "SenderConfig \<Rightarrow> SendEnv \<Rightarrow> nat \<Rightarrow> nat \<Rightarrow> SendOptions option \<Rightarrow> SendWorld
     \<Rightarrow> (thrown + int option) \<times> SendWorld" where
  "runSimulation cfg env att tx options w =
     (if skip_simulation cfg options then (Inr None, w)
      else
        (case env_simConnection env att of
           Some e \<Rightarrow> (Inl (ThrownError e), w)
         | None \<Rightarrow>
             (let simConfig = (case cfg_simulation cfg of Given c \<Rightarrow> Some c | _ \<Rightarrow> None);
                  w1 = w\<lparr>simulate_calls := simulate_calls w @ [(tx, heap w ! tx, simConfig)]\<rparr>
              in case simulateTransaction (env_rpcSimulate env att) of
                   Inl e \<Rightarrow> (Inl (ThrownError e), w1)
                 | Inr simResult \<Rightarrow>
                     (let w2 = emit (Ev_SIMULATED [] (sr_unitsConsumed simResult)
                                       (sr_logs simResult)) w1
                      in if \<not> sr_success simResult
                         then (Inl (ThrownError
                                 (SolTxError SIMULATION_FAILED
                                    (''Simulation failed: ''
                                       @ (case sr_error simResult of
                                            Some e \<Rightarrow> se_message e
                                          | None \<Rightarrow> ''unknown error''))
                                    None [(''logs'', JStrs (sr_logs simResult))])),
                               w2)
                         else (Inr (Some (sr_unitsConsumed simResult)), w2)))))"

definition sendRawTransaction ::
  "SendEnv \<Rightarrow> nat \<Rightarrow> nat \<Rightarrow> SendWorld \<Rightarrow> (js_error + string) \<times> SendWorld" where
  "sendRawTransaction env att tx w =
     (env_sendRaw env att (heap w ! tx), w\<lparr>submitted := submitted w @ [(tx, heap w ! tx)]\<rparr>)"

definition awaitConfirmation ::
  "SendEnv \<Rightarrow> nat \<Rightarrow> string \<Rightarrow> int \<Rightarrow> string \<Rightarrow> SendWorld \<Rightarrow> (thrown + int) \<times> SendWorld" where
  "awaitConfirmation env att signature lvbh commitment w =
     (case env_confirmConnection env att of
        Some e \<Rightarrow> (Inl (ThrownError e), w)
      | None \<Rightarrow>
          (case env_confirm env att signature lvbh of
             Inl t \<Rightarrow> (Inl t, w)
           | Inr confirmResult \<Rightarrow>
               if cr_status confirmResult = StatusFailed then
                 (Inl (ThrownError
                         (SolTxError TRANSACTION_FAILED
                            (case cr_error confirmResult of
                               Some (c, m) \<Rightarrow> m
                             | None \<Rightarrow> ''Transaction failed on chain'')
                            None [])),
                  w)
               else if cr_status confirmResult = StatusExpired then
                 (Inl (ThrownError
                         (SolTxError BLOCKHASH_EXPIRED ''Blockhash expired during confirmation''
                            None [])),
                  w)
               else
                 (let slot = (case cr_slot confirmResult of Some s \<Rightarrow> s | None \<Rightarrow> 0)
                  in (Inr slot, emit (Ev_CONFIRMED signature slot commitment) w))))"

definition buildResult ::
  "SendEnv \<Rightarrow> string \<Rightarrow> int \<Rightarrow> string \<Rightarrow> nat \<Rightarrow> int option \<Rightarrow> int option \<Rightarrow> SendResult" where
  "buildResult env signature slot commitment att unitsConsumed priorityFee =
     \<lparr>res_signature = signature, res_slot = slot, res_commitment = commitment,
      res_attempts = att + 1,
      res_totalLatencyMs = env_resultTime env att - env_startTime env,
      res_unitsConsumed = unitsConsumed, res_priorityFee = priorityFee\<rparr>"

text \<open>The part of an attempt after signing: simulate, submit, confirm.\<close>

definition submit_and_confirm ::
  "SenderConfig \<Rightarrow> SendEnv \<Rightarrow> nat \<Rightarrow> string \<Rightarrow> int option \<Rightarrow> SendOptions option
     \<Rightarrow> BlockhashInfo \<Rightarrow> nat \<Rightarrow> SendWorld \<Rightarrow> (thrown + SendResult) \<times> SendWorld" where
  "submit_and_confirm cfg env tx commitment feeAmount options blockhashInfo att w1 =
     (case runSimulation cfg env att tx options w1 of
        (Inl t, w2) \<Rightarrow> (Inl t, w2)
      | (Inr unitsConsumed, w2) \<Rightarrow>
          (case sendRawTransaction env att tx (emit (Ev_SENDING tx att) w2) of
             (Inl e, w4) \<Rightarrow> (Inl (ThrownError e), w4)
           | (Inr signature, w4) \<Rightarrow>
               (let w5 = emit (Ev_SENT signature att) w4
                in if (case options of None \<Rightarrow> False
                       | Some opts \<Rightarrow> opt_skipConfirmation opts = Some True)
                   then (Inr (buildResult env signature 0 commitment att unitsConsumed feeAmount),
                         w5)
                   else
                     (case awaitConfirmation env att signature
                             (lastValidBlockHeight blockhashInfo) commitment w5 of
                        (Inl t, w6) \<Rightarrow> (Inl t, w6)
                      | (Inr slot, w6) \<Rightarrow>
                          (Inr (buildResult env signature slot commitment att unitsConsumed
                                  feeAmount),
                           w6)))))"

text \<open>The function handed to \<^verbatim>\<open>withRetry\<close>.\<close>

definition send_attempt ::
  "SenderConfig \<Rightarrow> SendEnv \<Rightarrow> nat \<Rightarrow> string \<Rightarrow> int option \<Rightarrow> SendOptions option
     \<Rightarrow> RetryContext \<Rightarrow> SendWorld \<Rightarrow> (thrown + SendResult) \<times> SendWorld" where
  "send_attempt cfg env tx commitment feeAmount options ctx w =
     (case env_getBlockhash env (attempt ctx) of
        Inl e \<Rightarrow> (Inl (ThrownError e), w)
      | Inr blockhashInfo \<Rightarrow>
          (case signTransaction cfg env tx blockhashInfo
                  (case options of None \<Rightarrow> None | Some opts \<Rightarrow> opt_extraSigners opts) w of
             (Some t, w1) \<Rightarrow> (Inl t, w1)
           | (None, w1) \<Rightarrow>
               submit_and_confirm cfg env tx commitment feeAmount options blockhashInfo
                 (attempt ctx) w1))"

text \<open>The \<^verbatim>\<open>onRetry\<close> hook of a send.\<close>

definition send_onRetry ::
  "SenderConfig \<Rightarrow> SendEnv \<Rightarrow> js_error \<Rightarrow> nat \<Rightarrow> real \<Rightarrow> SendWorld \<Rightarrow> thrown option \<times> SendWorld" where
  "send_onRetry cfg env error att delayMs w =
     (let w1 = emit (Ev_RETRYING att
                       (case (case cfg_retry cfg of None \<Rightarrow> None | Some r \<Rightarrow> p_maxRetries r) of
                          Some n \<Rightarrow> n | None \<Rightarrow> 3)
                       error delayMs) w
      in if isBlockhashExpired error then
           (let oldBlockhash = (case env_cachedBefore env att of Some i \<Rightarrow> blockhash i | None \<Rightarrow> [])
            in case env_refresh env att of
                 Some e \<Rightarrow> (Some (ThrownError e), w1)
               | None \<Rightarrow>
                   (let newBlockhash =
                          (case env_cachedAfter env att of Some i \<Rightarrow> blockhash i | None \<Rightarrow> [])
                    in (None, emit (Ev_BLOCKHASH_EXPIRED oldBlockhash newBlockhash) w1)))
         else (None, w1))"

text \<open>The object spread \<^verbatim>\<open>{...this.config.retry, ...options?.retry, onRetry}\<close>.\<close>

definition spread_field :: "('r \<Rightarrow> 'a option) \<Rightarrow> 'r option \<Rightarrow> 'r option \<Rightarrow> 'a option" where
  "spread_field f base over =
     (case (case over of None \<Rightarrow> None | Some r \<Rightarrow> f r) of
        Some v \<Rightarrow> Some v
      | None \<Rightarrow> (case base of None \<Rightarrow> None | Some r \<Rightarrow> f r))"

definition send_retry_config ::
  "SenderConfig \<Rightarrow> SendEnv \<Rightarrow> SendOptions option \<Rightarrow> SendWorld PartialRetryConfig" where
  "send_retry_config cfg env options =
     (let base = cfg_retry cfg;
          over = (case options of None \<Rightarrow> None | Some opts \<Rightarrow> opt_retry opts)
      in \<lparr>p_maxRetries = spread_field p_maxRetries base over,
          p_baseDelayMs = spread_field p_baseDelayMs base over,
          p_maxDelayMs = spread_field p_maxDelayMs base over,
          p_backoffMultiplier = spread_field p_backoffMultiplier base over,
          p_retryPredicate = spread_field p_retryPredicate base over,
          p_onRetry = Some (send_onRetry cfg env)\<rparr>)"

definition send ::
  "SenderConfig \<Rightarrow> SendEnv \<Rightarrow> nat \<Rightarrow> SendOptions option \<Rightarrow> SendWorld
     \<Rightarrow> (thrown + SendResult) \<times> SendWorld" where
  "send cfg env transaction options w =
     (let commitment =
            (case (case options of None \<Rightarrow> None | Some opts \<Rightarrow> opt_commitment opts) of
               Some c \<Rightarrow> c
             | None \<Rightarrow> (case cfg_commitment cfg of Some c \<Rightarrow> c | None \<Rightarrow> ''confirmed''))
      in case prepareTransaction cfg env transaction options w of
           (Inl e, w1) \<Rightarrow> (Inl (ThrownError e), w1)
         | (Inr (tx, feeAmount), w1) \<Rightarrow>
             (let r = withRetry (send_attempt cfg env tx commitment feeAmount options)
                        (Some (send_retry_config cfg env options)) (env_retryClock env) w1
              in (rr_outcome r, rr_state r)))"

text \<open>What the model asks of the library's \<^verbatim>\<open>Transaction.sign\<close>: it leaves the instruction
  list of the transaction alone.\<close>

definition sign_keeps_instructions :: "SendEnv \<Rightarrow> bool" where
  "sign_keeps_instructions env =
     (\<forall>t ss t'. env_sign_legacy env t ss = Inr t' \<longrightarrow> instructions t' = instructions t)"

section \<open>Auxiliary predicates for the proofs\<close>

text \<open>The shape of a finished \<^verbatim>\<open>withRetry\<close> call without a custom predicate, by the
  statement that ended it.\<close>

definition retry_trace_ok :: "'s RetryConfig \<Rightarrow> RetryClock \<Rightarrow> ('a, 's) retry_result \<Rightarrow> bool" where
  "retry_trace_ok r clk res =
     (let es = rr_errors res; n = maxRetries r in
      rr_calls res \<le> n + 1 \<and>
      (case rr_exit res of
         Returned \<Rightarrow>
           rr_calls res = length es + 1 \<and> length es \<le> n
           \<and> list_all (\<lambda>e. retryable (classifyError e)) es
       | NonRetryableThrown \<Rightarrow>
           es \<noteq> [] \<and> rr_calls res = length es \<and> length es \<le> n
           \<and> list_all (\<lambda>e. retryable (classifyError e)) (butlast es)
           \<and> \<not> retryable (classifyError (last es))
           \<and> rr_outcome res =
               Inl (ThrownError
                 (SolTxError NON_RETRYABLE (''Non-retryable: '' @ message (last es))
                    (Some (last es))
                    [(''attempt'', JNum (real (length es - 1))),
                     (''errorType'', JStr (errorType (classifyError (last es))))]))
       | HookThrown \<Rightarrow>
           es \<noteq> [] \<and> rr_calls res = length es \<and> length es \<le> n
           \<and> list_all (\<lambda>e. retryable (classifyError e)) es
       | ExhaustedThrown \<Rightarrow>
           rr_calls res = n + 1 \<and> length es = n + 1
           \<and> list_all (\<lambda>e. retryable (classifyError e)) (butlast es)
           \<and> rr_outcome res = Inl (ThrownError (retries_exhausted r clk (Some (last es))))))"

text \<open>What the steps of an attempt after signing may do to the world: the store is left
  alone, events are appended (a SENDING event only for the working transaction \<open>tx\<close>), and
  only the working transaction, as it stands in the store, is handed to submission.\<close>

definition world_step :: "nat \<Rightarrow> SendWorld \<Rightarrow> SendWorld \<Rightarrow> bool" where
  "world_step tx w w' =
     (heap w' = heap w
      \<and> (\<exists>evs. events w' = events w @ evs \<and> (\<forall>r k. Ev_SENDING r k \<in> set evs \<longrightarrow> r = tx))
      \<and> (\<exists>subs. submitted w' = submitted w @ subs \<and> (\<forall>p \<in> set subs. p = (tx, heap w ! tx))))"

text \<open>The invariant of a send of the legacy transaction \<open>t\<close> stored at \<open>orig\<close>, with the working
  copy at \<open>copy\<close>: the original object is as it was, the copy carries the instruction list
  \<open>expected\<close>, and every submission and every SENDING event made since the send began
  (beyond the first \<open>ks\<close> submissions and \<open>ke\<close> events) is of the copy.\<close>

definition copy_invariant ::
  "SendEnv \<Rightarrow> nat \<Rightarrow> LegacyTransaction \<Rightarrow> nat \<Rightarrow> TransactionInstruction list \<Rightarrow> nat \<Rightarrow> nat
     \<Rightarrow> SendWorld \<Rightarrow> bool" where
  "copy_invariant env orig t copy expected ks ke w =
     (orig < length (heap w) \<and> copy < length (heap w) \<and> orig \<noteq> copy
      \<and> heap w ! orig = Legacy t
      \<and> (\<exists>c. heap w ! copy = Legacy c
              \<and> (sign_keeps_instructions env \<longrightarrow> instructions c = expected))
      \<and> (\<forall>p \<in> set (drop ks (submitted w)).
            fst p = copy \<and> (sign_keeps_instructions env \<longrightarrow> instructions_of (snd p) = expected))
      \<and> (\<forall>r k. Ev_SENDING r k \<in> set (drop ke (events w)) \<longrightarrow> r = copy))"

section \<open>Example inputs\<close>

text \<open>Concrete functions, configurations and states at which the properties below are
  instantiated.\<close>

definition fn_insufficient_funds :: "RetryContext \<Rightarrow> unit \<Rightarrow> (thrown + nat) \<times> unit" where
  "fn_insufficient_funds ctx s = (Inl (ThrownError (Error ''insufficient funds'' None)), s)"

definition fn_429_then_insufficient :: "RetryContext \<Rightarrow> unit \<Rightarrow> (thrown + nat) \<times> unit" where
  "fn_429_then_insufficient ctx s =
     (if attempt ctx = 0 then (Inl (ThrownError (Error ''HTTP 429'' None)), s)
      else (Inl (ThrownError (Error ''insufficient funds'' None)), s))"

definition fn_503 :: "RetryContext \<Rightarrow> unit \<Rightarrow> (thrown + nat) \<times> unit" where
  "fn_503 ctx s = (Inl (ThrownError (Error ''503 Service unavailable'' None)), s)"

definition example_clock :: RetryClock where
  "example_clock =
     \<lparr>clk_start = 0, clk_attempt = (\<lambda>k. int k * 10), clk_end = 100, clk_random = (\<lambda>k. 1 / 2)\<rparr>"

definition retry_config_max :: "nat \<Rightarrow> unit PartialRetryConfig" where
  "retry_config_max n =
     \<lparr>p_maxRetries = Some n, p_baseDelayMs = None, p_maxDelayMs = None,
      p_backoffMultiplier = None, p_retryPredicate = None, p_onRetry = None\<rparr>"

definition err_blockhash_and_funds :: js_error where
  "err_blockhash_and_funds = Error ''blockhash not found; insufficient funds'' None"

definition err_blockhash_econnreset :: js_error where
  "err_blockhash_econnreset = Error ''blockhash not found'' (Some ''ECONNRESET'')"

definition err_typed_expired :: js_error where
  "err_typed_expired =
     SolTxError BLOCKHASH_EXPIRED ''Blockhash expired during confirmation'' None []"

definition err_typed_expired_funds :: js_error where
  "err_typed_expired_funds =
     SolTxError BLOCKHASH_EXPIRED ''Blockhash expired: insufficient funds for fee'' None []"

definition example_endpoint :: RpcEndpointConfig where
  "example_endpoint =
     \<lparr>ep_url = ''https://rpc-a.example'', ep_weight = None, ep_rateLimit = None,
      ep_label = None\<rparr>"

definition example_endpoint_b :: RpcEndpointConfig where
  "example_endpoint_b =
     \<lparr>ep_url = ''https://rpc-b.example'', ep_weight = Some 2, ep_rateLimit = None,
      ep_label = Some ''backup''\<rparr>"

definition fresh_tracker :: HealthTracker where
  "fresh_tracker =
     new_HealthTracker example_endpoint (Connection ''https://rpc-a.example'') None None"

definition tracker_after_50 :: HealthTracker where
  "tracker_after_50 = tracker_recordSuccess 50 None 1000 1000 fresh_tracker"

definition tracker_after_0 :: HealthTracker where
  "tracker_after_0 = tracker_recordSuccess 0 None 1000 1000 fresh_tracker"

definition example_logger :: Logger where
  "example_logger = Logger ''console''"

definition open_tracker :: "Logger option \<Rightarrow> RpcEndpointConfig \<Rightarrow> HealthTracker" where
  "open_tracker logger endpoint =
     tracker_recordFailure (Error ''fail'' None) 1000 1000
       (new_HealthTracker endpoint (Connection (ep_url endpoint)) logger
          (Some \<lparr>p_failureThreshold = Some 1, p_resetTimeoutMs = Some 30000,
                 p_windowMs = Some 60000\<rparr>))"

text \<open>Two pools whose breakers have all been tripped: one built with a logger, one
  without (as \<^verbatim>\<open>new ConnectionPool(config)\<close> builds it).\<close>

definition tripped_pool :: ConnectionPool where
  "tripped_pool =
     \<lparr>trackers = [open_tracker (Some example_logger) example_endpoint,
                  open_tracker (Some example_logger) example_endpoint_b],
      healthCheckInterval = Some 10000, roundRobinIndex = 0, strategy = WeightedRoundRobin,
      pool_logger = Some example_logger, pool_warnings = []\<rparr>"

definition tripped_pool_no_logger :: ConnectionPool where
  "tripped_pool_no_logger =
     \<lparr>trackers = [open_tracker None example_endpoint, open_tracker None example_endpoint_b],
      healthCheckInterval = Some 10000, roundRobinIndex = 0, strategy = WeightedRoundRobin,
      pool_logger = None, pool_warnings = []\<rparr>"

definition empty_pool :: ConnectionPool where
  "empty_pool =
     new_ConnectionPool
       \<lparr>cp_endpoints = [], cp_strategy = None, cp_healthCheckIntervalMs = None,
        cp_circuitBreaker = None, cp_healthCheckCommitment = None\<rparr>
       None"

definition example_fees :: "PrioritizationFee list" where
  "example_fees =
     [\<lparr>pf_slot = 100, prioritizationFee = 1000\<rparr>, \<lparr>pf_slot = 101, prioritizationFee = 3000\<rparr>,
      \<lparr>pf_slot = 102, prioritizationFee = 0\<rparr>, \<lparr>pf_slot = 103, prioritizationFee = 2000\<rparr>]"

definition fee_config_min_above_max :: PartialFeeEstimateConfig where
  "fee_config_min_above_max =
     \<lparr>p_targetPercentile = None, p_maxMicroLamports = Some 500,
      p_minMicroLamports = Some 1000, p_writableAccounts = None\<rparr>"

definition fetched_manager :: BlockhashManager where
  "fetched_manager =
     \<lparr>bm_cache = Some \<lparr>blockhash = ''HASH_A'', lastValidBlockHeight = 200, fetchedAt = 1040\<rparr>,
      bm_refreshInterval = None, bm_fetchPromise = None,
      bm_config = \<lparr>ttlMs = 60000, refreshIntervalMs = 30000, bm_commitment = ''confirmed''\<rparr>,
      bm_rpc_calls = 1\<rparr>"

definition transfer_ix :: TransactionInstruction where
  "transfer_ix =
     \<lparr>programId = ''11111111111111111111111111111111'', ix_keys = [''payer'', ''receiver''],
      ix_data = OtherData [2, 0, 0, 0, 232, 3]\<rparr>"

definition example_legacy :: LegacyTransaction where
  "example_legacy =
     \<lparr>instructions = [transfer_ix, setComputeUnitLimit 999999, setComputeUnitPrice 42],
      recentBlockhash = None, feePayer = None, signatures = []\<rparr>"

definition example_versioned :: VersionedTransaction where
  "example_versioned =
     \<lparr>version = 0,
      vt_message = \<lparr>vm_recentBlockhash = ''HASH_OLD'', vm_compiledInstructions = [transfer_ix]\<rparr>,
      vt_signatures = []\<rparr>"

definition legacy_world :: SendWorld where
  "legacy_world = \<lparr>heap = [Legacy example_legacy], events = [], simulate_calls = [], submitted = []\<rparr>"

definition versioned_world :: SendWorld where
  "versioned_world =
     \<lparr>heap = [Versioned example_versioned], events = [], simulate_calls = [], submitted = []\<rparr>"

definition sign_legacy_example :: "LegacyTransaction \<Rightarrow> Keypair list \<Rightarrow> thrown + LegacyTransaction" where
  "sign_legacy_example t ss = Inr (t\<lparr>signatures := map (\<lambda>k. (publicKey k, ''sig'')) ss\<rparr>)"

definition sign_versioned_example ::
  "VersionedTransaction \<Rightarrow> Keypair list \<Rightarrow> thrown + VersionedTransaction" where
  "sign_versioned_example v ss = Inr (v\<lparr>vt_signatures := map (\<lambda>k. (publicKey k, ''sig'')) ss\<rparr>)"

definition blockhash_new :: "nat \<Rightarrow> js_error + BlockhashInfo" where
  "blockhash_new k = Inr \<lparr>blockhash = ''HASH_NEW'', lastValidBlockHeight = 200, fetchedAt = 0\<rparr>"

definition no_connection_error :: "nat \<Rightarrow> js_error option" where
  "no_connection_error k = None"

definition simulate_ok :: "nat \<Rightarrow> thrown + RpcSimulation" where
  "simulate_ok k = Inr \<lparr>rs_err = None, rs_logs = Some [''log1''], rs_unitsConsumed = Some 50000\<rparr>"

definition send_raw_ok :: "nat \<Rightarrow> SolanaTransaction \<Rightarrow> js_error + string" where
  "send_raw_ok k tx = Inr ''SIG''"

definition confirm_ok :: "nat \<Rightarrow> string \<Rightarrow> int \<Rightarrow> thrown + ConfirmationResult" where
  "confirm_ok k sg h =
     Inr \<lparr>cr_status = StatusConfirmed, cr_slot = Some 150, cr_error = None, cr_latencyMs = 5\<rparr>"

definition no_cached :: "nat \<Rightarrow> BlockhashInfo option" where
  "no_cached k = None"

definition result_time :: "nat \<Rightarrow> int" where
  "result_time k = 30"

definition example_env :: SendEnv where
  "example_env =
     \<lparr>env_sign_legacy = sign_legacy_example, env_sign_versioned = sign_versioned_example,
      env_feeConnection = None, env_recentFees = Inr example_fees,
      env_getBlockhash = blockhash_new, env_simConnection = no_connection_error,
      env_rpcSimulate = simulate_ok, env_sendRaw = send_raw_ok,
      env_confirmConnection = no_connection_error, env_confirm = confirm_ok,
      env_cachedBefore = no_cached, env_refresh = no_connection_error,
      env_cachedAfter = no_cached, env_startTime = 0, env_resultTime = result_time,
      env_retryClock = example_clock\<rparr>"

definition config_fees_no_simulation :: SenderConfig where
  "config_fees_no_simulation =
     \<lparr>cfg_signer = Keypair ''payer'', cfg_extraSigners = None, cfg_retry = None,
      cfg_priorityFee = Undefined, cfg_simulation = IsFalse, cfg_commitment = None\<rparr>"

definition config_no_fees_no_simulation :: SenderConfig where
  "config_no_fees_no_simulation =
     \<lparr>cfg_signer = Keypair ''payer'', cfg_extraSigners = None, cfg_retry = None,
      cfg_priorityFee = IsFalse, cfg_simulation = IsFalse, cfg_commitment = None\<rparr>"

definition options_skipSimulation :: "bool option \<Rightarrow> SendOptions" where
  "options_skipSimulation b =
     \<lparr>opt_priorityFee = None, opt_computeUnits = None, opt_retry = None,
      opt_skipSimulation = b, opt_skipConfirmation = Some True, opt_commitment = None,
      opt_extraSigners = None\<rparr>"

definition working_copy :: LegacyTransaction where
  "working_copy =
     \<lparr>instructions = [setComputeUnitLimit 200000, setComputeUnitPrice 3000, transfer_ix],
      recentBlockhash = None, feePayer = None, signatures = []\<rparr>"

definition signed_copy :: LegacyTransaction where
  "signed_copy =
     \<lparr>instructions = [setComputeUnitLimit 200000, setComputeUnitPrice 3000, transfer_ix],
      recentBlockhash = Some ''HASH_NEW'', feePayer = Some ''payer'',
      signatures = [(''payer'', ''sig'')]\<rparr>"

definition signed_versioned :: VersionedTransaction where
  "signed_versioned =
     \<lparr>version = 0,
      vt_message = \<lparr>vm_recentBlockhash = ''HASH_NEW'', vm_compiledInstructions = [transfer_ix]\<rparr>,
      vt_signatures = [(''payer'', ''sig'')]\<rparr>"

definition signed_legacy :: LegacyTransaction where
  "signed_legacy =
     \<lparr>instructions = [transfer_ix, setComputeUnitLimit 999999, setComputeUnitPrice 42],
      recentBlockhash = Some ''HASH_NEW'', feePayer = Some ''payer'',
      signatures = [(''payer'', ''sig'')]\<rparr>"

section \<open>Properties of the classifier\<close>

lemma includes_sublist: "str_includes s p \<longleftrightarrow> sublist p s"
  by (induction s) (auto simp: sublist_Cons_right)

lemma find_none_list_ex: "find P xs = None \<longleftrightarrow> \<not> list_ex P xs"
  by (auto simp: find_None_iff list_ex_iff)

lemma find_some_list_ex: "list_ex P xs \<Longrightarrow> \<exists>x. find P xs = Some x"
  by (cases "find P xs") (simp_all add: find_none_list_ex)

lemma classifyError_non_retryable_first:
  assumes "list_ex (\<lambda>pattern. str_includes (message e) pattern) NON_RETRYABLE_MESSAGES"
  shows "\<not> retryable (classifyError e)"
proof -
  obtain p where "find (\<lambda>pattern. str_includes (message e) pattern) NON_RETRYABLE_MESSAGES = Some p"
    using find_some_list_ex [OF assms] by blast
  then show ?thesis by (simp add: classifyError_def)
qed

lemma classifyError_blockhash_expired:
  assumes "\<not> list_ex (\<lambda>pattern. str_includes (message e) pattern) NON_RETRYABLE_MESSAGES"
    and "isBlockhashExpired e"
  shows "classifyError e
           = \<lparr>retryable = True, needsResign = True, errorType = ''BLOCKHASH_EXPIRED''\<rparr>"
proof -
  have "find (\<lambda>pattern. str_includes (message e) pattern) NON_RETRYABLE_MESSAGES = None"
    using assms(1) by (simp add: find_none_list_ex)
  then show ?thesis using assms(2) by (simp add: classifyError_def)
qed

lemma classifyError_network_code:
  assumes "\<not> list_ex (\<lambda>pattern. str_includes (message e) pattern) NON_RETRYABLE_MESSAGES"
    and "\<not> isBlockhashExpired e"
    and "code e = Some c" and "c \<in> set NETWORK_ERROR_CODES"
  shows "classifyError e = \<lparr>retryable = True, needsResign = False, errorType = c\<rparr>"
proof -
  have "find (\<lambda>pattern. str_includes (message e) pattern) NON_RETRYABLE_MESSAGES = None"
    using assms(1) by (simp add: find_none_list_ex)
  moreover have "c \<noteq> []" using assms(4) by (auto simp: NETWORK_ERROR_CODES_def)
  ultimately show ?thesis
    using assms(2,3,4) by (simp add: classifyError_def)
qed

text \<open>
  Claim C6, in the form that holds of the code.
  \<^verbatim>\<open>classifyError\<close> applies its rules first match first. An error whose
  message contains both a non-retryable pattern and a blockhash-expired pattern is not
  retryable. An error whose message contains no non-retryable pattern and that is typed
  BLOCKHASH_EXPIRED, or whose message contains a blockhash-expired pattern, is classified
  retryable with \<open>needsResign\<close> and type BLOCKHASH_EXPIRED. That rule comes before the
  network-code rule: with a network error code present as well the result is still the
  blockhash-expired one, and the network classification is given only to errors that are
  not blockhash-expired.
\<close>

theorem classifyError_precedence:
  "(list_ex (\<lambda>p. str_includes (message e) p) NON_RETRYABLE_MESSAGES
      \<and> list_ex (\<lambda>p. str_includes (message e) p) NEEDS_RESIGN_MESSAGES
     \<longrightarrow> \<not> retryable (classifyError e))
   \<and> (\<not> list_ex (\<lambda>p. str_includes (message e) p) NON_RETRYABLE_MESSAGES
      \<and> ((\<exists>m cs ctx. e = SolTxError BLOCKHASH_EXPIRED m cs ctx)
          \<or> list_ex (\<lambda>p. str_includes (message e) p) NEEDS_RESIGN_MESSAGES)
     \<longrightarrow> classifyError e
          = \<lparr>retryable = True, needsResign = True, errorType = ''BLOCKHASH_EXPIRED''\<rparr>)
   \<and> (\<not> list_ex (\<lambda>p. str_includes (message e) p) NON_RETRYABLE_MESSAGES
      \<and> code e = Some c \<and> c \<in> set NETWORK_ERROR_CODES
     \<longrightarrow> classifyError e
          = (if isBlockhashExpired e
             then \<lparr>retryable = True, needsResign = True, errorType = ''BLOCKHASH_EXPIRED''\<rparr>
             else \<lparr>retryable = True, needsResign = False, errorType = c\<rparr>))"
proof (intro conjI impI)
  assume "list_ex (\<lambda>p. str_includes (message e) p) NON_RETRYABLE_MESSAGES
      \<and> list_ex (\<lambda>p. str_includes (message e) p) NEEDS_RESIGN_MESSAGES"
  then show "\<not> retryable (classifyError e)"
    using classifyError_non_retryable_first by blast
next
  assume a: "\<not> list_ex (\<lambda>p. str_includes (message e) p) NON_RETRYABLE_MESSAGES
      \<and> ((\<exists>m cs ctx. e = SolTxError BLOCKHASH_EXPIRED m cs ctx)
          \<or> list_ex (\<lambda>p. str_includes (message e) p) NEEDS_RESIGN_MESSAGES)"
  then have "isBlockhashExpired e"
    by (auto simp: isBlockhashExpired_def)
  then show "classifyError e
          = \<lparr>retryable = True, needsResign = True, errorType = ''BLOCKHASH_EXPIRED''\<rparr>"
    using a classifyError_blockhash_expired by blast
next
  assume a: "\<not> list_ex (\<lambda>p. str_includes (message e) p) NON_RETRYABLE_MESSAGES
      \<and> code e = Some c \<and> c \<in> set NETWORK_ERROR_CODES"
  show "classifyError e
          = (if isBlockhashExpired e
             then \<lparr>retryable = True, needsResign = True, errorType = ''BLOCKHASH_EXPIRED''\<rparr>
             else \<lparr>retryable = True, needsResign = False, errorType = c\<rparr>)"
    using a classifyError_blockhash_expired [of e] classifyError_network_code [of e c]
    by simp
qed

theorem classifyError_precedence_witness:
  "list_ex (\<lambda>p. str_includes (message err_blockhash_and_funds) p) NON_RETRYABLE_MESSAGES
   \<and> list_ex (\<lambda>p. str_includes (message err_blockhash_and_funds) p) NEEDS_RESIGN_MESSAGES
   \<and> \<not> retryable (classifyError err_blockhash_and_funds)
   \<and> \<not> list_ex (\<lambda>p. str_includes (message err_typed_expired) p) NON_RETRYABLE_MESSAGES
   \<and> classifyError err_typed_expired
       = \<lparr>retryable = True, needsResign = True, errorType = ''BLOCKHASH_EXPIRED''\<rparr>
   \<and> \<not> list_ex (\<lambda>p. str_includes (message err_blockhash_econnreset) p) NON_RETRYABLE_MESSAGES
   \<and> code err_blockhash_econnreset = Some ''ECONNRESET''
   \<and> ''ECONNRESET'' \<in> set NETWORK_ERROR_CODES
   \<and> classifyError err_blockhash_econnreset
       = \<lparr>retryable = True, needsResign = True, errorType = ''BLOCKHASH_EXPIRED''\<rparr>"
proof -
  have a1: "list_ex (\<lambda>p. str_includes (message err_blockhash_and_funds) p) NON_RETRYABLE_MESSAGES"
    by (simp add: err_blockhash_and_funds_def NON_RETRYABLE_MESSAGES_def)
  have a2: "list_ex (\<lambda>p. str_includes (message err_blockhash_and_funds) p) NEEDS_RESIGN_MESSAGES"
    by (simp add: err_blockhash_and_funds_def NEEDS_RESIGN_MESSAGES_def)
  have a3: "\<not> retryable (classifyError err_blockhash_and_funds)"
    using classifyError_precedence [of err_blockhash_and_funds "[]"] a1 a2 by blast
  have b1: "\<not> list_ex (\<lambda>p. str_includes (message err_typed_expired) p) NON_RETRYABLE_MESSAGES"
    by (simp add: err_typed_expired_def NON_RETRYABLE_MESSAGES_def)
  have b2: "\<exists>m cs ctx. err_typed_expired = SolTxError BLOCKHASH_EXPIRED m cs ctx"
    by (simp add: err_typed_expired_def)
  have b3: "classifyError err_typed_expired
       = \<lparr>retryable = True, needsResign = True, errorType = ''BLOCKHASH_EXPIRED''\<rparr>"
    using classifyError_precedence [of err_typed_expired "[]"] b1 b2 by blast
  have c1: "\<not> list_ex (\<lambda>p. str_includes (message err_blockhash_econnreset) p) NON_RETRYABLE_MESSAGES"
    by (simp add: err_blockhash_econnreset_def NON_RETRYABLE_MESSAGES_def)
  have c2: "list_ex (\<lambda>p. str_includes (message err_blockhash_econnreset) p) NEEDS_RESIGN_MESSAGES"
    by (simp add: err_blockhash_econnreset_def NEEDS_RESIGN_MESSAGES_def)
  have c3: "code err_blockhash_econnreset = Some ''ECONNRESET''"
    by (simp add: err_blockhash_econnreset_def)
  have c4: "''ECONNRESET'' \<in> set NETWORK_ERROR_CODES"
    by (simp add: NETWORK_ERROR_CODES_def)
  have c5: "classifyError err_blockhash_econnreset
       = \<lparr>retryable = True, needsResign = True, errorType = ''BLOCKHASH_EXPIRED''\<rparr>"
    using classifyError_precedence [of err_blockhash_econnreset "''ECONNRESET''"] c1 c2 by blast
  show ?thesis using a1 a2 a3 b1 b3 c1 c3 c4 c5 by blast
qed

text \<open>
  An error typed BLOCKHASH_EXPIRED whose message contains a non-retryable pattern is caught by
  the first rule.
\<close>

theorem classifyError_typed_expired_counterexample:
  "is_SolTxError err_typed_expired_funds
   \<and> code err_typed_expired_funds = Some (code_string BLOCKHASH_EXPIRED)
   \<and> classifyError err_typed_expired_funds
       = \<lparr>retryable = False, needsResign = False, errorType = ''insufficient funds''\<rparr>"
  by (simp add: err_typed_expired_funds_def classifyError_def NON_RETRYABLE_MESSAGES_def)

section \<open>Properties of the retry loop\<close>

lemma withRetry_loop_trace:
  assumes "retryPredicate r = None"
    and "att = length errs" and "calls = length errs" and "att \<le> maxRetries r"
    and "list_all (\<lambda>e. retryable (classifyError e)) errs"
  shows "retry_trace_ok r clk (withRetry_loop fn r clk att lastErr calls errs s)"
  using assms
proof (induction fn r clk att lastErr calls errs s rule: withRetry_loop.induct)
  case (1 fn r clk att lastErr calls errs s)
  let ?ctx = "\<lparr>attempt = att, totalAttempts = maxRetries r + 1,
                elapsed = clk_attempt clk att - clk_start clk, lastError = lastErr\<rparr>"
  let ?loop = "withRetry_loop fn r clk att lastErr calls errs s"
  note le = "1.prems"(4)
  obtain out s1 where fn: "fn ?ctx s = (out, s1)" by (cases "fn ?ctx s")
  show ?case
  proof (cases out)
    case (Inr v)
    have "?loop = \<lparr>rr_outcome = Inr v, rr_exit = Returned, rr_calls = calls + 1,
                    rr_errors = errs, rr_state = s1\<rparr>"
      using fn Inr le by (subst withRetry_loop.simps) simp
    then show ?thesis
      using "1.prems" by (simp add: retry_trace_ok_def Let_def)
  next
    case (Inl err)
    let ?e = "to_error err"
    show ?thesis
    proof (cases "att \<ge> maxRetries r")
      case True
      have "?loop = \<lparr>rr_outcome = Inl (ThrownError (retries_exhausted r clk (Some ?e))),
                      rr_exit = ExhaustedThrown, rr_calls = calls + 1,
                      rr_errors = errs @ [?e], rr_state = s1\<rparr>"
        using fn Inl le True by (subst withRetry_loop.simps) (simp add: Let_def)
      then show ?thesis
        using "1.prems" True by (simp add: retry_trace_ok_def Let_def)
    next
      case False
      show ?thesis
      proof (cases "retryable (classifyError ?e)")
        case nr: False
        have nre: "non_retryable_error r ?e att =
              Some (SolTxError NON_RETRYABLE (''Non-retryable: '' @ message ?e) (Some ?e)
                      [(''attempt'', JNum (real att)),
                       (''errorType'', JStr (errorType (classifyError ?e)))])"
          using nr "1.prems"(1) by (simp add: non_retryable_error_def Let_def)
        have "?loop = \<lparr>rr_outcome = Inl (ThrownError
                          (SolTxError NON_RETRYABLE (''Non-retryable: '' @ message ?e) (Some ?e)
                            [(''attempt'', JNum (real att)),
                             (''errorType'', JStr (errorType (classifyError ?e)))])),
                        rr_exit = NonRetryableThrown, rr_calls = calls + 1,
                        rr_errors = errs @ [?e], rr_state = s1\<rparr>"
          using fn Inl le False nre by (subst withRetry_loop.simps) (simp add: Let_def)
        then show ?thesis
          using "1.prems" False nr by (simp add: retry_trace_ok_def Let_def)
      next
        case rt: True
        let ?d = "computeDelay att r (clk_random clk att)"
        let ?hook = "(case onRetry r of Some hook \<Rightarrow> hook ?e att ?d s1 | None \<Rightarrow> (None, s1))"
        obtain ht s2 where hk: "?hook = (ht, s2)" by (cases ?hook)
        have nre: "non_retryable_error r ?e att = None"
          using rt "1.prems"(1) by (simp add: non_retryable_error_def Let_def)
        show ?thesis
        proof (cases ht)
          case (Some t)
          have "?loop = \<lparr>rr_outcome = Inl t, rr_exit = HookThrown, rr_calls = calls + 1,
                          rr_errors = errs @ [?e], rr_state = s2\<rparr>"
            using fn Inl le False nre hk Some
            by (subst withRetry_loop.simps) (simp add: Let_def)
          then show ?thesis
            using "1.prems" False rt by (simp add: retry_trace_ok_def Let_def)
        next
          case None
          have step: "?loop
                = withRetry_loop fn r clk (att + 1) (Some ?e) (calls + 1) (errs @ [?e]) s2"
            using fn Inl le False nre hk None
            by (subst withRetry_loop.simps) (simp add: Let_def)
          have "retry_trace_ok r clk
                  (withRetry_loop fn r clk (att + 1) (Some ?e) (calls + 1) (errs @ [?e]) s2)"
          proof (rule "1.IH")
            show "att \<le> maxRetries r" using le .
            show "(out, s1) = fn ?ctx s" using fn by simp
            show "out = Inl err" using Inl .
            show "?e = to_error err" by simp
            show "\<not> maxRetries r \<le> att" using False .
            show "non_retryable_error r ?e att = None" using nre .
            show "?d = computeDelay att r (clk_random clk att)" by simp
            show "(ht, s2) = ?hook" using hk by simp
            show "ht = None" using None .
            show "retryPredicate r = None" using "1.prems"(1) .
            show "att + 1 = length (errs @ [?e])" using "1.prems"(2) by simp
            show "calls + 1 = length (errs @ [?e])" using "1.prems"(3) by simp
            show "att + 1 \<le> maxRetries r" using False by simp
            show "list_all (\<lambda>e. retryable (classifyError e)) (errs @ [?e])"
              using "1.prems"(5) rt by simp
          qed
          then show ?thesis using step by simp
        qed
      qed
    qed
  qed
qed

lemma classify_insufficient: "\<not> retryable (classifyError (Error ''insufficient funds'' None))"
  by (simp add: classifyError_def NON_RETRYABLE_MESSAGES_def)

lemma classify_429: "retryable (classifyError (Error ''HTTP 429'' None))"
  by (simp add: classifyError_def NON_RETRYABLE_MESSAGES_def isBlockhashExpired_def NEEDS_RESIGN_MESSAGES_def)

lemma classify_503: "retryable (classifyError (Error ''503 Service unavailable'' None))"
  by (simp add: classifyError_def NON_RETRYABLE_MESSAGES_def isBlockhashExpired_def NEEDS_RESIGN_MESSAGES_def)

lemma string_of_nat_1: "string_of_nat (Suc 0) = ''1''"
  by (simp add: string_of_nat.simps digit_char_def)

lemma withRetry_first_non_retryable:
  assumes "retryPredicate (resolve_retry_config config) = None"
    and "fn \<lparr>attempt = 0, totalAttempts = maxRetries (resolve_retry_config config) + 1,
              elapsed = clk_attempt clk 0 - clk_start clk, lastError = None\<rparr> s = (Inl t, s1)"
    and "\<not> retryable (classifyError (to_error t))"
  shows "rr_calls (withRetry fn config clk s) = 1"
  using assms unfolding withRetry_def
  by (subst withRetry_loop.simps) (simp add: non_retryable_error_def Let_def)

lemma list_all_nth: "list_all P xs \<Longrightarrow> k < length xs \<Longrightarrow> P (xs ! k)"
  by (simp add: list_all_length)

text \<open>
  Claim C1, in the form that holds of the code.
  For every \<open>fn\<close> and every retry configuration without a custom
  \<open>retryPredicate\<close>, \<^verbatim>\<open>withRetry\<close> invokes \<open>fn\<close> at most \<open>maxRetries + 1\<close> times. If an
  invocation before the last one (index \<open>k < maxRetries\<close>) throws an error that
  \<^verbatim>\<open>classifyError\<close> classifies as non-retryable, a NON_RETRYABLE error whose cause is that
  error is raised at once and \<open>fn\<close> has been invoked exactly \<open>k + 1\<close> times; a non-retryable
  failure of the first invocation means exactly one invocation, whatever \<open>maxRetries\<close> is.
  A RETRIES_EXHAUSTED error is raised only after all \<open>maxRetries + 1\<close> invocations failed; it
  wraps the last error, and the errors of the first \<open>maxRetries\<close> invocations were retryable
  (the error of the last invocation is not classified).
\<close>

theorem withRetry_attempts_and_exits:
  assumes "retryPredicate (resolve_retry_config config) = None"
  shows
    "rr_calls (withRetry fn config clk s) \<le> maxRetries (resolve_retry_config config) + 1
     \<and> (\<forall>k. k < length (rr_errors (withRetry fn config clk s))
            \<and> k < maxRetries (resolve_retry_config config)
            \<and> \<not> retryable (classifyError (rr_errors (withRetry fn config clk s) ! k))
          \<longrightarrow> rr_calls (withRetry fn config clk s) = k + 1
              \<and> rr_exit (withRetry fn config clk s) = NonRetryableThrown
              \<and> (\<exists>msg ctx. rr_outcome (withRetry fn config clk s) =
                    Inl (ThrownError (SolTxError NON_RETRYABLE msg
                           (Some (rr_errors (withRetry fn config clk s) ! k)) ctx))))
     \<and> (\<forall>t s1. fn \<lparr>attempt = 0,
                      totalAttempts = maxRetries (resolve_retry_config config) + 1,
                      elapsed = clk_attempt clk 0 - clk_start clk, lastError = None\<rparr> s
                   = (Inl t, s1)
                 \<and> \<not> retryable (classifyError (to_error t))
          \<longrightarrow> rr_calls (withRetry fn config clk s) = 1)
     \<and> (rr_exit (withRetry fn config clk s) = ExhaustedThrown
          \<longrightarrow> rr_calls (withRetry fn config clk s) = maxRetries (resolve_retry_config config) + 1
              \<and> length (rr_errors (withRetry fn config clk s))
                  = maxRetries (resolve_retry_config config) + 1
              \<and> rr_outcome (withRetry fn config clk s) =
                  Inl (ThrownError (retries_exhausted (resolve_retry_config config) clk
                         (Some (last (rr_errors (withRetry fn config clk s))))))
              \<and> (\<forall>k < maxRetries (resolve_retry_config config).
                    retryable (classifyError (rr_errors (withRetry fn config clk s) ! k))))"
proof -
  let ?r = "resolve_retry_config config"
  let ?res = "withRetry fn config clk s"
  let ?es = "rr_errors ?res"
  let ?ok = "\<lambda>e. retryable (classifyError e)"
  have tr: "retry_trace_ok ?r clk ?res"
    unfolding withRetry_def by (rule withRetry_loop_trace) (use assms in simp_all)
  have bound: "rr_calls ?res \<le> maxRetries ?r + 1"
    using tr by (simp add: retry_trace_ok_def Let_def)
  have short: "rr_calls ?res = k + 1 \<and> rr_exit ?res = NonRetryableThrown
        \<and> (\<exists>msg ctx. rr_outcome ?res = Inl (ThrownError (SolTxError NON_RETRYABLE msg (Some (?es ! k)) ctx)))"
    if k: "k < length ?es" "k < maxRetries ?r" "\<not> ?ok (?es ! k)" for k
  proof (cases "rr_exit ?res")
    case Returned
    then have "list_all ?ok ?es" using tr by (simp add: retry_trace_ok_def Let_def)
    then show ?thesis using k list_all_nth by blast
  next
    case HookThrown
    then have "list_all ?ok ?es" using tr by (simp add: retry_trace_ok_def Let_def)
    then show ?thesis using k list_all_nth by blast
  next
    case ExhaustedThrown
    then have len: "length ?es = maxRetries ?r + 1" and bl: "list_all ?ok (butlast ?es)"
      using tr by (simp_all add: retry_trace_ok_def Let_def)
    have "k < length (butlast ?es)" using len k(2) by simp
    then have "?ok (butlast ?es ! k)" using bl list_all_nth by blast
    then have "?ok (?es ! k)" using \<open>k < length (butlast ?es)\<close> by (simp add: nth_butlast)
    then show ?thesis using k by simp
  next
    case NonRetryableThrown
    then have ne: "?es \<noteq> []" and calls: "rr_calls ?res = length ?es"
      and bl: "list_all ?ok (butlast ?es)"
      and out: "rr_outcome ?res =
               Inl (ThrownError
                 (SolTxError NON_RETRYABLE (''Non-retryable: '' @ message (last ?es))
                    (Some (last ?es))
                    [(''attempt'', JNum (real (length ?es - 1))),
                     (''errorType'', JStr (errorType (classifyError (last ?es))))]))"
      using tr by (simp_all add: retry_trace_ok_def Let_def)
    have "\<not> k < length (butlast ?es)"
    proof
      assume lt: "k < length (butlast ?es)"
      then have "?ok (butlast ?es ! k)" using bl list_all_nth by blast
      then have "?ok (?es ! k)" using lt by (simp add: nth_butlast)
      then show False using k(3) by simp
    qed
    then have keq: "k = length ?es - 1" using k(1) by simp
    then have "?es ! k = last ?es" using ne by (simp add: last_conv_nth)
    then show ?thesis using keq calls ne out NonRetryableThrown by simp
  qed
  have first: "rr_calls ?res = 1"
    if "fn \<lparr>attempt = 0, totalAttempts = maxRetries ?r + 1,
              elapsed = clk_attempt clk 0 - clk_start clk, lastError = None\<rparr> s = (Inl t, s1)"
      and "\<not> ?ok (to_error t)" for t s1
    using assms that by (rule withRetry_first_non_retryable [of config fn clk s t s1])
  have exh: "rr_calls ?res = maxRetries ?r + 1 \<and> length ?es = maxRetries ?r + 1
        \<and> rr_outcome ?res = Inl (ThrownError (retries_exhausted ?r clk (Some (last ?es))))
        \<and> (\<forall>k < maxRetries ?r. ?ok (?es ! k))"
    if ex: "rr_exit ?res = ExhaustedThrown"
  proof -
    have c: "rr_calls ?res = maxRetries ?r + 1" and len: "length ?es = maxRetries ?r + 1"
      and bl: "list_all ?ok (butlast ?es)"
      and out: "rr_outcome ?res = Inl (ThrownError (retries_exhausted ?r clk (Some (last ?es))))"
      using tr ex by (simp_all add: retry_trace_ok_def Let_def)
    have "?ok (?es ! k)" if "k < maxRetries ?r" for k
    proof -
      have lt: "k < length (butlast ?es)" using len that by simp
      then have "?ok (butlast ?es ! k)" using bl list_all_nth by blast
      then show ?thesis using lt by (simp add: nth_butlast)
    qed
    then show ?thesis using c len out by blast
  qed
  show ?thesis using bound short first exh by blast
qed

theorem withRetry_attempts_and_exits_witness:
  "retryPredicate (resolve_retry_config (None :: unit PartialRetryConfig option)) = None
   \<and> rr_calls (withRetry fn_429_then_insufficient None example_clock ()) = 2
   \<and> rr_errors (withRetry fn_429_then_insufficient None example_clock ())
       = [Error ''HTTP 429'' None, Error ''insufficient funds'' None]
   \<and> \<not> retryable (classifyError (Error ''insufficient funds'' None))
   \<and> rr_exit (withRetry fn_429_then_insufficient None example_clock ()) = NonRetryableThrown
   \<and> rr_exit (withRetry fn_503 (Some (retry_config_max 2)) example_clock ()) = ExhaustedThrown
   \<and> rr_calls (withRetry fn_503 (Some (retry_config_max 2)) example_clock ()) = 3
   \<and> retryable (classifyError (Error ''503 Service unavailable'' None))"
  using withRetry_attempts_and_exits [of None fn_429_then_insufficient example_clock "()"]
    withRetry_attempts_and_exits [of "Some (retry_config_max 2)" fn_503 example_clock "()"]
  by (simp add: withRetry_def withRetry_loop.simps fn_429_then_insufficient_def fn_503_def
        retry_config_max_def resolve_retry_config_def example_clock_def
        non_retryable_error_def classify_insufficient classify_429 classify_503
        computeDelay_def retries_exhausted_def Let_def)

text \<open>
  With \<open>maxRetries = 0\<close> the only invocation is the last one: its non-retryable error is
  wrapped in RETRIES_EXHAUSTED, not in NON_RETRYABLE.
\<close>

theorem withRetry_last_attempt_counterexample:
  "maxRetries (resolve_retry_config (Some (retry_config_max 0))) = 0
   \<and> rr_calls (withRetry fn_insufficient_funds (Some (retry_config_max 0)) example_clock ()) = 1
   \<and> rr_outcome (withRetry fn_insufficient_funds (Some (retry_config_max 0)) example_clock ())
       = Inl (ThrownError (SolTxError RETRIES_EXHAUSTED ''All 1 attempts failed''
                (Some (Error ''insufficient funds'' None))
                [(''maxRetries'', JNum 0), (''elapsed'', JNum 100)]))
   \<and> \<not> retryable (classifyError (Error ''insufficient funds'' None))"
  by (simp add: withRetry_def withRetry_loop.simps fn_insufficient_funds_def retry_config_max_def
        resolve_retry_config_def example_clock_def retries_exhausted_def string_of_nat_1
        classify_insufficient Let_def)

section \<open>Properties of the circuit breaker\<close>

lemma recordFailure_config [simp]: "cb_config (recordFailure t b) = cb_config b"
  by (simp add: recordFailure_def Let_def)

lemma recordFailure_not_half_open [simp]: "cb_state (recordFailure t b) \<noteq> HALF_OPEN"
  by (simp add: recordFailure_def Let_def)

lemma recordFailures_snoc [simp]:
  "recordFailures (ts @ [t]) b = recordFailure t (recordFailures ts b)"
  by (simp add: recordFailures_def)

lemma recordFailures_Nil [simp]: "recordFailures [] b = b"
  by (simp add: recordFailures_def)

lemma recordFailures_config [simp]: "cb_config (recordFailures ts b) = cb_config b"
  by (induction ts rule: rev_induct) simp_all






text \<open>
  Claim C10. In OPEN, \<^verbatim>\<open>recordSuccess\<close> changes nothing, whatever the clock says: it
  tests the stored state and never reads the clock, so after the reset timeout has elapsed the
  breaker is still OPEN with the same failure window. The promotion to HALF_OPEN is made by
  the state reads only (no recording operation and no reset ever produces HALF_OPEN), and
  a success recorded after such a read closes the breaker. A success that closes a breaker
  that was not closed found it HALF_OPEN.
\<close>

theorem open_recordSuccess_is_noop:
  "(cb_state b = OPEN \<longrightarrow> recordSuccess b = b)
   \<and> (cb_state b = OPEN \<and> resetTimeoutMs (cb_config b) \<le> now - cb_lastOpenedAt b
     \<longrightarrow> cb_state (recordSuccess b) = OPEN
         \<and> cb_failures (recordSuccess b) = cb_failures b
         \<and> cb_state (recordSuccess (snd (currentState now b))) = CLOSED
         \<and> cb_state (recordSuccess (snd (canExecute now b))) = CLOSED)
   \<and> cb_state (recordSuccess b) \<noteq> HALF_OPEN
   \<and> cb_state (recordFailure now b) \<noteq> HALF_OPEN
   \<and> cb_state (reset b) \<noteq> HALF_OPEN
   \<and> (cb_state b \<noteq> CLOSED \<and> cb_state (recordSuccess b) = CLOSED
     \<longrightarrow> cb_state b = HALF_OPEN)"
  by (simp add: recordSuccess_def currentState_def canExecute_def reset_def)

theorem open_recordSuccess_is_noop_witness:
  "recordSuccess
     \<lparr>cb_state = OPEN, cb_failures = [1000, 2000], cb_lastOpenedAt = 2000,
      cb_config = \<lparr>failureThreshold = 2, resetTimeoutMs = 5000, windowMs = 60000\<rparr>\<rparr>
   = \<lparr>cb_state = OPEN, cb_failures = [1000, 2000], cb_lastOpenedAt = 2000,
      cb_config = \<lparr>failureThreshold = 2, resetTimeoutMs = 5000, windowMs = 60000\<rparr>\<rparr>
   \<and> (5000::int) \<le> 9000 - 2000
   \<and> cb_state (recordSuccess (snd (currentState 9000
        \<lparr>cb_state = OPEN, cb_failures = [1000, 2000], cb_lastOpenedAt = 2000,
         cb_config = \<lparr>failureThreshold = 2, resetTimeoutMs = 5000, windowMs = 60000\<rparr>\<rparr>)))
       = CLOSED"
  using open_recordSuccess_is_noop
      [of "\<lparr>cb_state = OPEN, cb_failures = [1000, 2000], cb_lastOpenedAt = 2000,
            cb_config = \<lparr>failureThreshold = 2, resetTimeoutMs = 5000, windowMs = 60000\<rparr>\<rparr>"
          9000]
  by simp

section \<open>Properties of the health tracker and the pool\<close>

lemma isAvailable_connection [simp]:
  "tracker_getConnection (snd (isAvailable now t)) = tracker_getConnection t"
  by (simp add: isAvailable_def tracker_getConnection_def split: prod.split)

text \<open>What \<^verbatim>\<open>recordSuccess\<close> stores as the latency average (kept in exact arithmetic here;
  the source computes in double precision), and the number of samples it has counted.\<close>

lemma tracker_recordSuccess_latencyEma:
  "latencyEma (ht_metrics (tracker_recordSuccess x slot now now' t))
     = (if latencyEma (ht_metrics t) = 0 then x
        else EMA_ALPHA * x + (1 - EMA_ALPHA) * latencyEma (ht_metrics t))"
  by (simp add: tracker_recordSuccess_def updateErrorRate_def Let_def
        split: option.split prod.split)

lemma tracker_recordSuccess_successCount:
  "successCount (ht_metrics (tracker_recordSuccess x slot now now' t))
     = successCount (ht_metrics t) + 1"
  by (simp add: tracker_recordSuccess_def updateErrorRate_def Let_def
        split: option.split prod.split)

lemma fresh_tracker_metrics:
  "latencyEma (ht_metrics fresh_tracker) = 0" "successCount (ht_metrics fresh_tracker) = 0"
  by (simp_all add: fresh_tracker_def new_HealthTracker_def)

lemma tracker_after_50_ema: "latencyEma (ht_metrics tracker_after_50) = 50"
  by (simp add: tracker_after_50_def tracker_recordSuccess_latencyEma fresh_tracker_metrics)

lemma tracker_after_0_ema: "latencyEma (ht_metrics tracker_after_0) = 0"
  by (simp add: tracker_after_0_def tracker_recordSuccess_latencyEma fresh_tracker_metrics)

lemma tracker_after_0_count: "successCount (ht_metrics tracker_after_0) = 1"
  by (simp add: tracker_after_0_def tracker_recordSuccess_successCount fresh_tracker_metrics)

text \<open>The smoothing step on a tracker whose average is not zero, as in the repository's
  test (50 ms, then 100 ms, gives 65).\<close>

lemma tracker_after_50_then_100:
  "latencyEma (ht_metrics (tracker_recordSuccess 100 None 2000 2000 tracker_after_50)) = 65"
  by (simp add: tracker_recordSuccess_latencyEma tracker_after_50_ema EMA_ALPHA_def)

text \<open>
  Claim C9 fails on the code.
  A fresh tracker records a first sample of 0 ms: one sample is counted and the average
  is 0, the sample's own value. The next \<^verbatim>\<open>recordSuccess\<close>, with latency 100 ms, is a
  subsequent sample, so the average should become \<open>0.3 \<times> 100 + 0.7 \<times> 0 = 30\<close>. The source
  recognises a tracker without samples by \<^verbatim>\<open>latencyEma === 0\<close>, takes this tracker for one,
  and stores 100: the second sample is not smoothed.
\<close>

theorem recordSuccess_zero_sample_not_smoothed:
  "successCount (ht_metrics tracker_after_0) = 1
   \<and> latencyEma (ht_metrics tracker_after_0) = 0
   \<and> latencyEma (ht_metrics (tracker_recordSuccess 100 None 2000 2000 tracker_after_0)) = 100
   \<and> 0.3 * 100 + 0.7 * latencyEma (ht_metrics tracker_after_0) = 30"
  by (simp add: tracker_after_0_ema tracker_after_0_count tracker_recordSuccess_latencyEma)

lemma read_availability_none:
  assumes "\<forall>t \<in> set ts. \<not> fst (isAvailable now t)"
  shows "filter fst (read_availability now ts) = []"
  using assms by (induction ts) (simp_all add: read_availability_def)

text \<open>The fallback branch of \<^verbatim>\<open>getConnection\<close>: the result and the warn calls of a pool with
  at least one tracker, none of them available.\<close>

lemma getConnection_no_available:
  assumes "trackers pool = t # ts"
    and "\<forall>t \<in> set (trackers pool). \<not> fst (isAvailable now t)"
  shows "fst (getConnection now pool) = Inr (tracker_getConnection t)"
    and "pool_warnings (snd (getConnection now pool))
           = logger_warn (pool_logger pool)
               (''All RPC endpoints unhealthy, using first endpoint as fallback'', None)
               (pool_warnings pool)"
proof -
  have none: "filter fst (read_availability now (trackers pool)) = []"
    using assms(2) by (rule read_availability_none)
  show "fst (getConnection now pool) = Inr (tracker_getConnection t)"
    using none by (simp add: getConnection_def Let_def assms(1) read_availability_def)
  show "pool_warnings (snd (getConnection now pool))
           = logger_warn (pool_logger pool)
               (''All RPC endpoints unhealthy, using first endpoint as fallback'', None)
               (pool_warnings pool)"
    using none by (simp add: getConnection_def Let_def assms(1) read_availability_def)
qed

text \<open>
  Claim C7, in the form that holds of the code.
  For every pool with at least one tracker: when no tracker's breaker allows execution,
  \<^verbatim>\<open>getConnection\<close> returns the connection of the first tracker; it does not fail. A pool
  that was built with a logger makes one warn call on it, with the fallback message; a
  pool built without a logger makes no warn call.
\<close>

theorem getConnection_fallback:
  "trackers pool \<noteq> [] \<and> (\<forall>t \<in> set (trackers pool). \<not> fst (isAvailable now t))
   \<longrightarrow> fst (getConnection now pool) = Inr (tracker_getConnection (hd (trackers pool)))
       \<and> (pool_logger pool \<noteq> None
            \<longrightarrow> pool_warnings (snd (getConnection now pool))
                  = pool_warnings pool
                      @ [(''All RPC endpoints unhealthy, using first endpoint as fallback'',
                          None)])
       \<and> (pool_logger pool = None
            \<longrightarrow> pool_warnings (snd (getConnection now pool)) = pool_warnings pool)"
proof (rule impI)
  assume a: "trackers pool \<noteq> [] \<and> (\<forall>t \<in> set (trackers pool). \<not> fst (isAvailable now t))"
  then obtain t ts where ts: "trackers pool = t # ts" by (cases "trackers pool") auto
  have unavailable: "\<forall>t \<in> set (trackers pool). \<not> fst (isAvailable now t)"
    using a by simp
  note fallback = getConnection_no_available [OF ts unavailable]
  show "fst (getConnection now pool) = Inr (tracker_getConnection (hd (trackers pool)))
       \<and> (pool_logger pool \<noteq> None
            \<longrightarrow> pool_warnings (snd (getConnection now pool))
                  = pool_warnings pool
                      @ [(''All RPC endpoints unhealthy, using first endpoint as fallback'',
                          None)])
       \<and> (pool_logger pool = None
            \<longrightarrow> pool_warnings (snd (getConnection now pool)) = pool_warnings pool)"
    using fallback by (auto simp: ts logger_warn_def)
qed

lemma open_tracker_unavailable: "\<not> fst (isAvailable 2000 (open_tracker logger e))"
  by (simp add: open_tracker_def isAvailable_def canExecute_def currentState_def
        tracker_recordFailure_def recordFailure_def new_HealthTracker_def new_CircuitBreaker_def
        Let_def split: prod.split)

lemma open_tracker_connection:
  "tracker_getConnection (open_tracker logger e) = Connection (ep_url e)"
  by (simp add: open_tracker_def tracker_getConnection_def tracker_recordFailure_def
        new_HealthTracker_def Let_def split: prod.split)

theorem getConnection_fallback_witness:
  "trackers tripped_pool \<noteq> []
   \<and> \<not> fst (isAvailable 2000 (open_tracker (Some example_logger) example_endpoint))
   \<and> \<not> fst (isAvailable 2000 (open_tracker (Some example_logger) example_endpoint_b))
   \<and> pool_logger tripped_pool = Some example_logger
   \<and> fst (getConnection 2000 tripped_pool) = Inr (Connection ''https://rpc-a.example'')
   \<and> pool_warnings (snd (getConnection 2000 tripped_pool))
       = [(''All RPC endpoints unhealthy, using first endpoint as fallback'', None)]
   \<and> trackers tripped_pool_no_logger \<noteq> []
   \<and> \<not> fst (isAvailable 2000 (open_tracker None example_endpoint))
   \<and> \<not> fst (isAvailable 2000 (open_tracker None example_endpoint_b))
   \<and> pool_logger tripped_pool_no_logger = None
   \<and> fst (getConnection 2000 tripped_pool_no_logger) = Inr (Connection ''https://rpc-a.example'')
   \<and> pool_warnings (snd (getConnection 2000 tripped_pool_no_logger)) = []"
  using getConnection_fallback [of tripped_pool 2000]
    getConnection_fallback [of tripped_pool_no_logger 2000]
  by (simp add: tripped_pool_def tripped_pool_no_logger_def open_tracker_unavailable
        open_tracker_connection example_endpoint_def)

text \<open>
  A pool built from an empty endpoint list has no available tracker either, and there
  \<^verbatim>\<open>getConnection\<close> raises ALL_ENDPOINTS_UNHEALTHY. A pool built without a logger whose
  two breakers are open returns the first connection and has made no warn call.
\<close>

theorem getConnection_empty_pool_counterexample:
  "filter fst (read_availability 2000 (trackers empty_pool)) = []
   \<and> fst (getConnection 2000 empty_pool)
       = Inl (SolTxError ALL_ENDPOINTS_UNHEALTHY
                ''No RPC endpoints configured. Call .rpc() or .rpcPool() in the builder.''
                None [])
   \<and> filter fst (read_availability 2000 (trackers tripped_pool_no_logger)) = []
   \<and> fst (getConnection 2000 tripped_pool_no_logger) = Inr (Connection ''https://rpc-a.example'')
   \<and> pool_warnings (snd (getConnection 2000 tripped_pool_no_logger)) = []"
proof -
  have empty: "filter fst (read_availability 2000 (trackers empty_pool)) = []
    \<and> fst (getConnection 2000 empty_pool)
       = Inl (SolTxError ALL_ENDPOINTS_UNHEALTHY
                ''No RPC endpoints configured. Call .rpc() or .rpcPool() in the builder.''
                None [])"
    by (simp add: empty_pool_def new_ConnectionPool_def getConnection_def read_availability_def
          Let_def logger_warn_def)
  have ts: "trackers tripped_pool_no_logger
              = open_tracker None example_endpoint # [open_tracker None example_endpoint_b]"
    by (simp add: tripped_pool_no_logger_def)
  have unavailable: "\<forall>t \<in> set (trackers tripped_pool_no_logger). \<not> fst (isAvailable 2000 t)"
    by (simp add: tripped_pool_no_logger_def open_tracker_unavailable)
  have none: "filter fst (read_availability 2000 (trackers tripped_pool_no_logger)) = []"
    using unavailable by (rule read_availability_none)
  have silent: "fst (getConnection 2000 tripped_pool_no_logger)
                  = Inr (Connection ''https://rpc-a.example'')
    \<and> pool_warnings (snd (getConnection 2000 tripped_pool_no_logger)) = []"
    using getConnection_no_available [OF ts unavailable]
    by (simp add: open_tracker_connection example_endpoint_def logger_warn_def
          tripped_pool_no_logger_def)
  show ?thesis using empty none silent by blast
qed

section \<open>Properties of the blockhash manager\<close>

text \<open>
  Claim C8. \<^verbatim>\<open>getBlockhash\<close> returns the cached record, and leaves the manager as it is,
  whenever a record is cached and not stale; otherwise (nothing cached, or the record is
  stale) it is \<^verbatim>\<open>refreshBlockhash\<close>. If a call with no fetch in flight found no fresh record
  and returned the record \<open>info\<close> (so it fetched and cached it), a second call made on the
  manager as the first call left it, while \<open>now2 - fetchedAt info \<le> ttlMs\<close>, returns the
  same record and makes no RPC call: the two calls together made exactly one.
\<close>

theorem getBlockhash_cached_within_ttl:
  "(bm_cache m = Some c \<and> \<not> isStale now m c \<longrightarrow> getBlockhash now rpc t m = (Inr c, m))
   \<and> (bm_cache m = None \<or> (\<exists>c. bm_cache m = Some c \<and> isStale now m c)
        \<longrightarrow> getBlockhash now rpc t m = refreshBlockhash rpc t m)
   \<and> (bm_fetchPromise m = None
        \<and> (bm_cache m = None \<or> (\<exists>c. bm_cache m = Some c \<and> isStale now m c))
        \<and> getBlockhash now rpc t m = (Inr info, m1)
        \<and> now2 - fetchedAt info \<le> ttlMs (bm_config m)
        \<longrightarrow> bm_cache m1 = Some info
            \<and> getBlockhash now2 rpc2 t2 m1 = (Inr info, m1)
            \<and> bm_rpc_calls (snd (getBlockhash now2 rpc2 t2 m1)) = bm_rpc_calls m + 1)"
proof -
  have hit: "bm_cache m = Some c \<and> \<not> isStale now m c \<longrightarrow> getBlockhash now rpc t m = (Inr c, m)"
    by (simp add: getBlockhash_def)
  have miss: "bm_cache m = None \<or> (\<exists>c. bm_cache m = Some c \<and> isStale now m c)
        \<longrightarrow> getBlockhash now rpc t m = refreshBlockhash rpc t m"
    by (auto simp: getBlockhash_def)
  have twice: "bm_fetchPromise m = None
        \<and> (bm_cache m = None \<or> (\<exists>c. bm_cache m = Some c \<and> isStale now m c))
        \<and> getBlockhash now rpc t m = (Inr info, m1)
        \<and> now2 - fetchedAt info \<le> ttlMs (bm_config m)
        \<longrightarrow> bm_cache m1 = Some info
            \<and> getBlockhash now2 rpc2 t2 m1 = (Inr info, m1)
            \<and> bm_rpc_calls (snd (getBlockhash now2 rpc2 t2 m1)) = bm_rpc_calls m + 1"
  proof (rule impI)
    assume a: "bm_fetchPromise m = None
        \<and> (bm_cache m = None \<or> (\<exists>c. bm_cache m = Some c \<and> isStale now m c))
        \<and> getBlockhash now rpc t m = (Inr info, m1)
        \<and> now2 - fetchedAt info \<le> ttlMs (bm_config m)"
    then have rf: "refreshBlockhash rpc t m = (Inr info, m1)"
      using miss by simp
    have "\<exists>h l. rpc = Inr (h, l)"
    proof (cases rpc)
      case (Inl e)
      then show ?thesis
        using rf a by (simp add: refreshBlockhash_def fetchBlockhash_def Let_def)
    next
      case (Inr p)
      then show ?thesis by (cases p) simp
    qed
    then obtain h l where rpc: "rpc = Inr (h, l)" by blast
    have m1: "m1 = m\<lparr>bm_rpc_calls := bm_rpc_calls m + 1, bm_cache := Some info,
                      bm_fetchPromise := None\<rparr>"
      using rf a rpc by (auto simp: refreshBlockhash_def fetchBlockhash_def Let_def)
    have fresh: "\<not> isStale now2 m1 info"
      using a m1 by (simp add: isStale_def)
    show "bm_cache m1 = Some info
            \<and> getBlockhash now2 rpc2 t2 m1 = (Inr info, m1)
            \<and> bm_rpc_calls (snd (getBlockhash now2 rpc2 t2 m1)) = bm_rpc_calls m + 1"
      using fresh m1 by (simp add: getBlockhash_def)
  qed
  show ?thesis using hit miss twice by blast
qed

theorem getBlockhash_cached_within_ttl_witness:
  "bm_fetchPromise (new_BlockhashManager None) = None
   \<and> bm_cache (new_BlockhashManager None) = None
   \<and> getBlockhash 1000 (Inr (''HASH_A'', 200)) 1040 (new_BlockhashManager None)
       = (Inr \<lparr>blockhash = ''HASH_A'', lastValidBlockHeight = 200, fetchedAt = 1040\<rparr>,
          fetched_manager)
   \<and> (61040::int) - 1040 \<le> ttlMs (bm_config (new_BlockhashManager None))
   \<and> getBlockhash 61040 (Inr (''HASH_B'', 300)) 61080 fetched_manager
       = (Inr \<lparr>blockhash = ''HASH_A'', lastValidBlockHeight = 200, fetchedAt = 1040\<rparr>,
          fetched_manager)
   \<and> bm_rpc_calls fetched_manager = 1"
  using getBlockhash_cached_within_ttl
      [of "new_BlockhashManager None"
          "\<lparr>blockhash = ''HASH_A'', lastValidBlockHeight = 200, fetchedAt = 1040\<rparr>"
          1000 "Inr (''HASH_A'', 200)" 1040
          "\<lparr>blockhash = ''HASH_A'', lastValidBlockHeight = 200, fetchedAt = 1040\<rparr>"
          fetched_manager 61040 "Inr (''HASH_B'', 300)" 61080]
  by (simp add: new_BlockhashManager_def fetched_manager_def getBlockhash_def
        refreshBlockhash_def fetchBlockhash_def isStale_def)

section \<open>Properties of the fee estimator\<close>

lemma percentile_index_in_range:
  assumes "0 < p" "p \<le> 100" "vs \<noteq> []"
  shows "\<lceil>(p / 100) * real (length vs)\<rceil> - 1 < int (length vs)"
proof -
  have "(p / 100) * real (length vs) \<le> real (length vs)"
    using assms by (simp add: mult_left_le_one_le)
  then have "\<lceil>(p / 100) * real (length vs)\<rceil> \<le> int (length vs)"
    by (simp add: ceiling_le_iff)
  then show ?thesis by simp
qed

lemma percentile_nearest_rank:
  assumes "0 < p" "p \<le> 100" "vs \<noteq> []"
  shows "percentile vs p = nearest_rank vs p"
proof -
  let ?i = "\<lceil>(p / 100) * real (length vs)\<rceil> - 1"
  have lt: "?i < int (length vs)" using percentile_index_in_range [OF assms] .
  have pos: "0 < length vs" using assms(3) by simp
  have "min (int (length vs) - 1) (max 0 ?i) = max 0 ?i" using lt pos by linarith
  moreover have "nat (max 0 ?i) < length vs" using lt pos by linarith
  ultimately show ?thesis using assms(3) by (simp add: percentile_def nearest_rank_def Let_def)
qed

lemma nonzero_sorted_filter:
  "sort (filter (\<lambda>f. f > 0) (map (\<lambda>f. int (prioritizationFee f)) fees)) = nonzero_sorted fees"
proof -
  have "filter (\<lambda>f. f > 0) (map (\<lambda>f. int (prioritizationFee f)) fees)
          = filter (\<lambda>f. f \<noteq> 0) (map (\<lambda>f. int (prioritizationFee f)) fees)"
    by (rule filter_cong) auto
  then show ?thesis by (simp add: nonzero_sorted_def)
qed

lemma estimatePriorityFee_unfold:
  "estimatePriorityFee (Inr fees) config =
     Inr \<lparr>fe_microLamports =
            min (max (case targetPercentile (resolve_fee_config config) of
                        P50 \<Rightarrow> percentile (nonzero_sorted fees) 50
                      | P75 \<Rightarrow> percentile (nonzero_sorted fees) 75
                      | P90 \<Rightarrow> percentile (nonzero_sorted fees) 90)
                   (minMicroLamports (resolve_fee_config config)))
              (maxMicroLamports (resolve_fee_config config)),
          fe_p50 = percentile (nonzero_sorted fees) 50,
          fe_p75 = percentile (nonzero_sorted fees) 75,
          fe_p90 = percentile (nonzero_sorted fees) 90,
          fe_sampleCount = length (nonzero_sorted fees)\<rparr>"
  by (cases "targetPercentile (resolve_fee_config config)")
     (simp_all add: estimatePriorityFee_def Let_def nonzero_sorted_filter)

text \<open>
  Claim C5, in the form that holds of the code.
  For every list of fee samples the RPC returns, \<^verbatim>\<open>estimatePriorityFee\<close>
  discards the zero-valued samples, sorts the rest ascending and reports their number; when
  some sample is non-zero, p50, p75 and p90 are the nearest-rank values (index
  \<open>\<lceil>p/100 \<times> n\<rceil> - 1\<close> clamped to \<open>[0, n-1]\<close>) and, provided
  \<open>minMicroLamports \<le> maxMicroLamports\<close>, the returned fee is the configured percentile
  clamped into \<open>[minMicroLamports, maxMicroLamports]\<close>; when no sample is non-zero and
  \<open>0 \<le> minMicroLamports \<le> maxMicroLamports\<close>, the returned fee is \<open>minMicroLamports\<close>.
\<close>

theorem estimatePriorityFee_nearest_rank_clamped:
  "\<exists>r. estimatePriorityFee (Inr fees) config = Inr r
     \<and> fe_sampleCount r = length (nonzero_sorted fees)
     \<and> (nonzero_sorted fees \<noteq> []
          \<longrightarrow> fe_p50 r = nearest_rank (nonzero_sorted fees) 50
              \<and> fe_p75 r = nearest_rank (nonzero_sorted fees) 75
              \<and> fe_p90 r = nearest_rank (nonzero_sorted fees) 90)
     \<and> (nonzero_sorted fees \<noteq> []
          \<and> minMicroLamports (resolve_fee_config config)
              \<le> maxMicroLamports (resolve_fee_config config)
          \<longrightarrow> fe_microLamports r
                = max (minMicroLamports (resolve_fee_config config))
                    (min (maxMicroLamports (resolve_fee_config config))
                       (nearest_rank (nonzero_sorted fees)
                          (percentile_of (targetPercentile (resolve_fee_config config)))))
              \<and> minMicroLamports (resolve_fee_config config) \<le> fe_microLamports r
              \<and> fe_microLamports r \<le> maxMicroLamports (resolve_fee_config config))
     \<and> (nonzero_sorted fees = []
          \<and> 0 \<le> minMicroLamports (resolve_fee_config config)
          \<and> minMicroLamports (resolve_fee_config config)
              \<le> maxMicroLamports (resolve_fee_config config)
          \<longrightarrow> fe_microLamports r = minMicroLamports (resolve_fee_config config))"
proof -
  let ?cfg = "resolve_fee_config config"
  let ?vs = "nonzero_sorted fees"
  let ?r = "\<lparr>fe_microLamports =
            min (max (case targetPercentile ?cfg of
                        P50 \<Rightarrow> percentile ?vs 50
                      | P75 \<Rightarrow> percentile ?vs 75
                      | P90 \<Rightarrow> percentile ?vs 90)
                   (minMicroLamports ?cfg))
              (maxMicroLamports ?cfg),
          fe_p50 = percentile ?vs 50, fe_p75 = percentile ?vs 75, fe_p90 = percentile ?vs 90,
          fe_sampleCount = length ?vs\<rparr>"
  have eq: "estimatePriorityFee (Inr fees) config = Inr ?r"
    by (rule estimatePriorityFee_unfold)
  have ranks: "fe_p50 ?r = nearest_rank ?vs 50 \<and> fe_p75 ?r = nearest_rank ?vs 75
                 \<and> fe_p90 ?r = nearest_rank ?vs 90" if "?vs \<noteq> []"
    using that by (simp add: percentile_nearest_rank)
  have target: "(case targetPercentile ?cfg of
                        P50 \<Rightarrow> percentile ?vs 50
                      | P75 \<Rightarrow> percentile ?vs 75
                      | P90 \<Rightarrow> percentile ?vs 90)
                 = nearest_rank ?vs (percentile_of (targetPercentile ?cfg))" if "?vs \<noteq> []"
    using that
    by (cases "targetPercentile ?cfg") (simp_all add: percentile_nearest_rank percentile_of_def)
  have clamp: "fe_microLamports ?r
                = max (minMicroLamports ?cfg)
                    (min (maxMicroLamports ?cfg)
                       (nearest_rank ?vs (percentile_of (targetPercentile ?cfg))))
              \<and> minMicroLamports ?cfg \<le> fe_microLamports ?r
              \<and> fe_microLamports ?r \<le> maxMicroLamports ?cfg"
    if "?vs \<noteq> []" "minMicroLamports ?cfg \<le> maxMicroLamports ?cfg"
    using that target by auto
  have empty: "fe_microLamports ?r = minMicroLamports ?cfg"
    if "?vs = []" "0 \<le> minMicroLamports ?cfg" "minMicroLamports ?cfg \<le> maxMicroLamports ?cfg"
    using that by (cases "targetPercentile ?cfg") (simp_all add: percentile_def)
  show ?thesis
    using eq ranks clamp empty by (intro exI [of _ ?r]) simp
qed

lemma example_fees_sorted: "nonzero_sorted example_fees = [1000, 2000, 3000]"
  by (simp add: nonzero_sorted_def example_fees_def)

lemma nearest_rank_example:
  "nearest_rank [1000, 2000, 3000] 50 = 2000"
  "nearest_rank [1000, 2000, 3000] 75 = 3000"
  "nearest_rank [1000, 2000, 3000] 90 = 3000"
  by (simp_all add: nearest_rank_def)

theorem estimatePriorityFee_nearest_rank_clamped_witness:
  "nonzero_sorted example_fees = [1000, 2000, 3000]
   \<and> minMicroLamports (resolve_fee_config None) \<le> maxMicroLamports (resolve_fee_config None)
   \<and> estimatePriorityFee (Inr example_fees) None
       = Inr \<lparr>fe_microLamports = 3000, fe_p50 = 2000, fe_p75 = 3000, fe_p90 = 3000,
              fe_sampleCount = 3\<rparr>
   \<and> nonzero_sorted [] = []
   \<and> 0 \<le> minMicroLamports (resolve_fee_config None)
   \<and> estimatePriorityFee (Inr []) None
       = Inr \<lparr>fe_microLamports = 1000, fe_p50 = 0, fe_p75 = 0, fe_p90 = 0,
              fe_sampleCount = 0\<rparr>"
proof -
  have cfg: "resolve_fee_config None
      = \<lparr>targetPercentile = P75, maxMicroLamports = 1000000, minMicroLamports = 1000,
         writableAccounts = None\<rparr>"
    by (simp add: resolve_fee_config_def)
  have e0: "nonzero_sorted [] = []" by (simp add: nonzero_sorted_def)
  have pr: "percentile [1000, 2000, 3000] 50 = 2000" "percentile [1000, 2000, 3000] 75 = 3000"
    "percentile [1000, 2000, 3000] 90 = 3000"
    using nearest_rank_example by (simp_all add: percentile_nearest_rank)
  have full: "estimatePriorityFee (Inr example_fees) None
       = Inr \<lparr>fe_microLamports = 3000, fe_p50 = 2000, fe_p75 = 3000, fe_p90 = 3000,
              fe_sampleCount = 3\<rparr>"
    by (simp add: estimatePriorityFee_unfold cfg example_fees_sorted pr)
  have none: "estimatePriorityFee (Inr []) None
       = Inr \<lparr>fe_microLamports = 1000, fe_p50 = 0, fe_p75 = 0, fe_p90 = 0,
              fe_sampleCount = 0\<rparr>"
    by (simp add: estimatePriorityFee_unfold cfg e0 percentile_def)
  show ?thesis
    using estimatePriorityFee_nearest_rank_clamped [of example_fees None]
      estimatePriorityFee_nearest_rank_clamped [of "[]" None] full none
    by (simp add: cfg example_fees_sorted e0)
qed

theorem estimatePriorityFee_min_above_max_counterexample:
  "minMicroLamports (resolve_fee_config (Some fee_config_min_above_max)) = 1000
   \<and> maxMicroLamports (resolve_fee_config (Some fee_config_min_above_max)) = 500
   \<and> estimatePriorityFee (Inr []) (Some fee_config_min_above_max)
       = Inr \<lparr>fe_microLamports = 500, fe_p50 = 0, fe_p75 = 0, fe_p90 = 0, fe_sampleCount = 0\<rparr>"
  by (simp add: estimatePriorityFee_unfold resolve_fee_config_def fee_config_min_above_max_def
        nonzero_sorted_def percentile_def)

section \<open>Properties of the send pipeline\<close>

subsection \<open>State invariants of the retry loop\<close>

lemma withRetry_loop_state_invariant:
  assumes fn: "\<And>ctx s out s'. I s \<Longrightarrow> fn ctx s = (out, s') \<Longrightarrow> I s'"
    and hook: "\<And>h e a d s t s'. onRetry r = Some h \<Longrightarrow> I s \<Longrightarrow> h e a d s = (t, s') \<Longrightarrow> I s'"
    and init: "I s"
  shows "I (rr_state (withRetry_loop fn r clk att lastErr calls errs s))"
  using assms
proof (induction fn r clk att lastErr calls errs s rule: withRetry_loop.induct)
  case (1 fn r clk att lastErr calls errs s)
  let ?ctx = "\<lparr>attempt = att, totalAttempts = maxRetries r + 1,
                elapsed = clk_attempt clk att - clk_start clk, lastError = lastErr\<rparr>"
  let ?loop = "withRetry_loop fn r clk att lastErr calls errs s"
  show ?case
  proof (cases "att \<le> maxRetries r")
    case False
    then have "rr_state ?loop = s" by (subst withRetry_loop.simps) simp
    then show ?thesis using "1.prems" by simp
  next
    case le: True
    obtain out s1 where fn: "fn ?ctx s = (out, s1)" by (cases "fn ?ctx s")
    have I1: "I s1" using "1.prems"(1) [OF "1.prems"(3) fn] .
    show ?thesis
    proof (cases out)
      case (Inr v)
      have "rr_state ?loop = s1"
        using fn Inr le by (subst withRetry_loop.simps) simp
      then show ?thesis using I1 by simp
    next
      case (Inl err)
      let ?e = "to_error err"
      show ?thesis
      proof (cases "att \<ge> maxRetries r")
        case True
        have "rr_state ?loop = s1"
          using fn Inl le True by (subst withRetry_loop.simps) (simp add: Let_def)
        then show ?thesis using I1 by simp
      next
        case False
        show ?thesis
        proof (cases "non_retryable_error r ?e att")
          case (Some ne)
          have "rr_state ?loop = s1"
            using fn Inl le False Some by (subst withRetry_loop.simps) (simp add: Let_def)
          then show ?thesis using I1 by simp
        next
          case nre: None
          let ?d = "computeDelay att r (clk_random clk att)"
          let ?hook = "(case onRetry r of Some hook \<Rightarrow> hook ?e att ?d s1 | None \<Rightarrow> (None, s1))"
          obtain ht s2 where hk: "?hook = (ht, s2)" by (cases ?hook)
          have I2: "I s2"
          proof (cases "onRetry r")
            case None
            then show ?thesis using hk I1 by simp
          next
            case (Some h)
            then have "h ?e att ?d s1 = (ht, s2)" using hk by simp
            then show ?thesis using "1.prems"(2) [OF Some I1] by blast
          qed
          show ?thesis
          proof (cases ht)
            case (Some t)
            have "rr_state ?loop = s2"
              using fn Inl le False nre hk Some
              by (subst withRetry_loop.simps) (simp add: Let_def)
            then show ?thesis using I2 by simp
          next
            case None
            have step: "?loop
                  = withRetry_loop fn r clk (att + 1) (Some ?e) (calls + 1) (errs @ [?e]) s2"
              using fn Inl le False nre hk None
              by (subst withRetry_loop.simps) (simp add: Let_def)
            have "I (rr_state
                  (withRetry_loop fn r clk (att + 1) (Some ?e) (calls + 1) (errs @ [?e]) s2))"
            proof (rule "1.IH")
              show "att \<le> maxRetries r" using le .
              show "(out, s1) = fn ?ctx s" using fn by simp
              show "out = Inl err" using Inl .
              show "?e = to_error err" by simp
              show "\<not> maxRetries r \<le> att" using False .
              show "non_retryable_error r ?e att = None" using nre .
              show "?d = computeDelay att r (clk_random clk att)" by simp
              show "(ht, s2) = ?hook" using hk by simp
              show "ht = None" using None .
              show "\<And>ctx s out s'. I s \<Longrightarrow> fn ctx s = (out, s') \<Longrightarrow> I s'"
                using "1.prems"(1) by blast
              show "\<And>h e a d s t s'.
                      onRetry r = Some h \<Longrightarrow> I s \<Longrightarrow> h e a d s = (t, s') \<Longrightarrow> I s'"
                using "1.prems"(2) by blast
              show "I s2" using I2 .
            qed
            then show ?thesis using step by simp
          qed
        qed
      qed
    qed
  qed
qed

lemma resolve_send_retry_config_onRetry [simp]:
  "onRetry (resolve_retry_config (Some (send_retry_config cfg env options)))
     = Some (send_onRetry cfg env)"
  by (simp add: resolve_retry_config_def send_retry_config_def Let_def)

text \<open>An invariant of the world kept by every attempt and by the hook holds after a send
  that got past \<^verbatim>\<open>prepareTransaction\<close>.\<close>

lemma send_state_invariant:
  assumes prep: "prepareTransaction cfg env transaction options w = (Inr (tx, fee), w1)"
    and att: "\<And>commitment ctx s out s'.
                I s \<Longrightarrow> send_attempt cfg env tx commitment fee options ctx s = (out, s') \<Longrightarrow> I s'"
    and hook: "\<And>e a d s t s'. I s \<Longrightarrow> send_onRetry cfg env e a d s = (t, s') \<Longrightarrow> I s'"
    and init: "I w1"
  shows "I (snd (send cfg env transaction options w))"
proof -
  let ?c = "(case (case options of None \<Rightarrow> None | Some opts \<Rightarrow> opt_commitment opts) of
               Some c \<Rightarrow> c
             | None \<Rightarrow> (case cfg_commitment cfg of Some c \<Rightarrow> c | None \<Rightarrow> ''confirmed''))"
  have "snd (send cfg env transaction options w)
      = rr_state (withRetry (send_attempt cfg env tx ?c fee options)
                    (Some (send_retry_config cfg env options)) (env_retryClock env) w1)"
    using prep by (simp add: send_def Let_def)
  moreover have "I (rr_state (withRetry (send_attempt cfg env tx ?c fee options)
                    (Some (send_retry_config cfg env options)) (env_retryClock env) w1))"
    unfolding withRetry_def
  proof (rule withRetry_loop_state_invariant [where I = I])
    show "\<And>ctx s out s'. I s \<Longrightarrow> send_attempt cfg env tx ?c fee options ctx s = (out, s') \<Longrightarrow> I s'"
      using att by blast
    show "\<And>h e a d s t s'.
            onRetry (resolve_retry_config (Some (send_retry_config cfg env options))) = Some h
            \<Longrightarrow> I s \<Longrightarrow> h e a d s = (t, s') \<Longrightarrow> I s'"
      using hook by simp
    show "I w1" using init .
  qed
  ultimately show ?thesis by simp
qed

subsection \<open>What each step changes\<close>

lemma foldl_tx_add_filter:
  "foldl (\<lambda>c ix. if P ix then tx_add c ix else c) c0 ixs
     = c0\<lparr>instructions := instructions c0 @ filter P ixs\<rparr>"
  by (induction ixs arbitrary: c0) (simp_all add: tx_add_def)

lemma prepareTransaction_copy:
  assumes "heap w ! orig = Legacy t" and "cfg_priorityFee cfg \<noteq> IsFalse"
    and "prepareTransaction cfg env orig options w = (Inr (copy, fee), w1)"
  shows "\<exists>m. fee = Some m \<and> copy = length (heap w)
           \<and> w1 = w\<lparr>heap := heap w @
                 [Legacy \<lparr>instructions =
                            [setComputeUnitLimit (compute_units_of options), setComputeUnitPrice m]
                              @ filter (\<lambda>ix. programId ix \<noteq> ComputeBudgetProgram_programId)
                                  (instructions t),
                          recentBlockhash = None, feePayer = None, signatures = []\<rparr>]\<rparr>"
  using assms
  by (auto simp: prepareTransaction_def isLegacyTransaction_def Let_def foldl_tx_add_filter
        createComputeBudgetInstructions_def new_Transaction_def tx_add_def
        split: sum.splits)

lemma prepareTransaction_versioned:
  assumes "heap w ! orig = Versioned v"
  shows "prepareTransaction cfg env orig options w = (Inr (orig, None), w)"
  using assms by (simp add: prepareTransaction_def isLegacyTransaction_def)

lemma signTransaction_legacy:
  assumes "heap w ! tx = Legacy c"
  shows "\<exists>c'. snd (signTransaction cfg env tx bh ex w) = w\<lparr>heap := (heap w)[tx := Legacy c']\<rparr>
            \<and> (sign_keeps_instructions env \<longrightarrow> instructions c' = instructions c)"
  using assms
  by (auto simp: signTransaction_def Let_def sign_keeps_instructions_def split: sum.splits)

lemma signTransaction_other_fields [simp]:
  "events (snd (signTransaction cfg env tx bh ex w)) = events w"
  "simulate_calls (snd (signTransaction cfg env tx bh ex w)) = simulate_calls w"
  "submitted (snd (signTransaction cfg env tx bh ex w)) = submitted w"
  by (auto simp: signTransaction_def Let_def split: sum.splits SolanaTransaction.splits)

lemma runSimulation_heap [simp]:
  "heap (snd (runSimulation cfg env att tx options w)) = heap w"
  "submitted (snd (runSimulation cfg env att tx options w)) = submitted w"
  by (auto simp: runSimulation_def Let_def emit_def split: option.splits sum.splits)

lemma runSimulation_skip:
  "skip_simulation cfg options \<Longrightarrow> runSimulation cfg env att tx options w = (Inr None, w)"
  by (simp add: runSimulation_def)

lemma runSimulation_events:
  "\<exists>evs. events (snd (runSimulation cfg env att tx options w)) = events w @ evs
         \<and> (\<forall>r k. Ev_SENDING r k \<notin> set evs)"
  by (auto simp: runSimulation_def Let_def emit_def split: option.splits sum.splits)

lemma awaitConfirmation_fields [simp]:
  "heap (snd (awaitConfirmation env att sg lvbh cm w)) = heap w"
  "submitted (snd (awaitConfirmation env att sg lvbh cm w)) = submitted w"
  "simulate_calls (snd (awaitConfirmation env att sg lvbh cm w)) = simulate_calls w"
  by (auto simp: awaitConfirmation_def Let_def emit_def split: option.splits sum.splits)

lemma awaitConfirmation_events:
  "\<exists>evs. events (snd (awaitConfirmation env att sg lvbh cm w)) = events w @ evs
         \<and> (\<forall>r k. Ev_SENDING r k \<notin> set evs)"
  by (auto simp: awaitConfirmation_def Let_def emit_def split: option.splits sum.splits)

lemma submit_and_confirm_heap [simp]:
  "heap (snd (submit_and_confirm cfg env tx cm fee options bh att w)) = heap w"
proof -
  obtain o1 w2 where rs: "runSimulation cfg env att tx options w = (o1, w2)"
    by (cases "runSimulation cfg env att tx options w")
  have h2: "heap w2 = heap w" using runSimulation_heap(1) [of cfg env att tx options w] rs by simp
  show ?thesis
  proof (cases o1)
    case (Inl t)
    then show ?thesis using rs h2 by (simp add: submit_and_confirm_def)
  next
    case (Inr u)
    let ?w3 = "emit (Ev_SENDING tx att) w2"
    obtain o4 w4 where sr: "sendRawTransaction env att tx ?w3 = (o4, w4)"
      by (cases "sendRawTransaction env att tx ?w3")
    have h4: "heap w4 = heap w" using sr h2 by (auto simp: sendRawTransaction_def emit_def)
    show ?thesis
    proof (cases o4)
      case (Inl e)
      then show ?thesis using rs Inr sr h4 by (simp add: submit_and_confirm_def)
    next
      case sig: (Inr sg)
      show ?thesis
        using rs Inr sr sig h4
        by (auto simp: submit_and_confirm_def Let_def emit_def split: prod.splits sum.splits
              dest: arg_cong [where f = "\<lambda>p. heap (snd p)"])
    qed
  qed
qed

lemma world_step_refl [simp]: "world_step tx w w"
  by (simp add: world_step_def)

lemma world_step_trans:
  assumes "world_step tx w w1" and "world_step tx w1 w2"
  shows "world_step tx w w2"
proof -
  from assms obtain e1 s1 e2 s2 where
    h: "heap w1 = heap w" "heap w2 = heap w1"
    and e: "events w1 = events w @ e1" "events w2 = events w1 @ e2"
      "\<forall>r k. Ev_SENDING r k \<in> set e1 \<longrightarrow> r = tx" "\<forall>r k. Ev_SENDING r k \<in> set e2 \<longrightarrow> r = tx"
    and s: "submitted w1 = submitted w @ s1" "submitted w2 = submitted w1 @ s2"
      "\<forall>p \<in> set s1. p = (tx, heap w ! tx)" "\<forall>p \<in> set s2. p = (tx, heap w1 ! tx)"
    unfolding world_step_def by blast
  have "events w2 = events w @ (e1 @ e2)" using e by simp
  moreover have "\<forall>r k. Ev_SENDING r k \<in> set (e1 @ e2) \<longrightarrow> r = tx" using e by auto
  moreover have "submitted w2 = submitted w @ (s1 @ s2)" using s by simp
  moreover have "\<forall>p \<in> set (s1 @ s2). p = (tx, heap w ! tx)" using s h by auto
  ultimately show ?thesis
    unfolding world_step_def using h by metis
qed

lemma world_step_emit:
  "(\<And>r k. e = Ev_SENDING r k \<Longrightarrow> r = tx) \<Longrightarrow> world_step tx w (emit e w)"
  by (auto simp: world_step_def emit_def)

lemma runSimulation_world_step:
  "runSimulation cfg env att tx options w = (out, w') \<Longrightarrow> world_step tx w w'"
  using runSimulation_events [of cfg env att tx options w] runSimulation_heap [of cfg env att tx options w]
  by (auto simp: world_step_def)

lemma awaitConfirmation_world_step:
  "awaitConfirmation env att sg lvbh cm w = (out, w') \<Longrightarrow> world_step tx w w'"
  using awaitConfirmation_events [of env att sg lvbh cm w]
    awaitConfirmation_fields [of env att sg lvbh cm w]
  by (auto simp: world_step_def)

lemma sendRawTransaction_world_step:
  "sendRawTransaction env att tx w = (out, w') \<Longrightarrow> world_step tx w w'"
  by (auto simp: sendRawTransaction_def world_step_def)

lemma submit_and_confirm_world_step:
  assumes "submit_and_confirm cfg env tx cm fee options bh att w = (out, w')"
  shows "world_step tx w w'"
proof -
  obtain o1 w2 where rs: "runSimulation cfg env att tx options w = (o1, w2)"
    by (cases "runSimulation cfg env att tx options w")
  have s2: "world_step tx w w2" using runSimulation_world_step [OF rs] .
  show ?thesis
  proof (cases o1)
    case (Inl t)
    then show ?thesis using rs s2 assms by (simp add: submit_and_confirm_def)
  next
    case (Inr u)
    let ?w3 = "emit (Ev_SENDING tx att) w2"
    have s3: "world_step tx w ?w3"
      using world_step_trans [OF s2 world_step_emit [of "Ev_SENDING tx att" tx w2]] by simp
    obtain o4 w4 where sr: "sendRawTransaction env att tx ?w3 = (o4, w4)"
      by (cases "sendRawTransaction env att tx ?w3")
    have s4: "world_step tx w w4"
      using world_step_trans [OF s3 sendRawTransaction_world_step [OF sr]] .
    show ?thesis
    proof (cases o4)
      case (Inl e)
      then show ?thesis using rs Inr sr s4 assms by (simp add: submit_and_confirm_def)
    next
      case sig: (Inr sg)
      let ?w5 = "emit (Ev_SENT sg att) w4"
      have s5: "world_step tx w ?w5"
        using world_step_trans [OF s4 world_step_emit [of "Ev_SENT sg att" tx w4]] by simp
      show ?thesis
      proof (cases "(case options of None \<Rightarrow> False
                     | Some opts \<Rightarrow> opt_skipConfirmation opts = Some True)")
        case True
        then show ?thesis
          using rs Inr sr sig s5 assms by (simp add: submit_and_confirm_def Let_def)
      next
        case False
        obtain o6 w6 where ac: "awaitConfirmation env att sg (lastValidBlockHeight bh) cm ?w5
                                  = (o6, w6)"
          by (cases "awaitConfirmation env att sg (lastValidBlockHeight bh) cm ?w5")
        have s6: "world_step tx w w6"
          using world_step_trans [OF s5 awaitConfirmation_world_step [OF ac]] .
        show ?thesis
          using rs Inr sr sig False ac s6 assms
          by (cases o6) (simp_all add: submit_and_confirm_def Let_def)
      qed
    qed
  qed
qed

lemma submit_and_confirm_simulate_calls:
  assumes "skip_simulation cfg options"
  shows "simulate_calls (snd (submit_and_confirm cfg env tx cm fee options bh att w))
           = simulate_calls w"
  using assms
  by (auto simp: submit_and_confirm_def runSimulation_skip sendRawTransaction_def emit_def
        Let_def split: sum.splits prod.splits
        dest: arg_cong [where f = "\<lambda>p. simulate_calls (snd p)"])

lemma send_attempt_simulate_calls:
  assumes "skip_simulation cfg options"
  shows "simulate_calls (snd (send_attempt cfg env tx cm fee options ctx w)) = simulate_calls w"
proof (cases "env_getBlockhash env (attempt ctx)")
  case (Inl e)
  then show ?thesis by (simp add: send_attempt_def)
next
  case (Inr bh)
  let ?ex = "(case options of None \<Rightarrow> None | Some opts \<Rightarrow> opt_extraSigners opts)"
  obtain t w1 where sg: "signTransaction cfg env tx bh ?ex w = (t, w1)"
    by (cases "signTransaction cfg env tx bh ?ex w")
  have c1: "simulate_calls w1 = simulate_calls w"
    using signTransaction_other_fields(2) [of cfg env tx bh ?ex w] sg by simp
  show ?thesis
    using Inr sg c1 submit_and_confirm_simulate_calls [OF assms, of env tx cm fee bh "attempt ctx" w1]
    by (cases t) (simp_all add: send_attempt_def)
qed

lemma send_onRetry_fields [simp]:
  "heap (snd (send_onRetry cfg env e a d w)) = heap w"
  "submitted (snd (send_onRetry cfg env e a d w)) = submitted w"
  "simulate_calls (snd (send_onRetry cfg env e a d w)) = simulate_calls w"
  by (auto simp: send_onRetry_def Let_def emit_def split: option.splits)

lemma send_onRetry_events:
  "\<exists>evs. events (snd (send_onRetry cfg env e a d w)) = events w @ evs
         \<and> (\<forall>r k. Ev_SENDING r k \<notin> set evs)"
  by (auto simp: send_onRetry_def Let_def emit_def split: option.splits)

lemma prepareTransaction_simulate_calls [simp]:
  "simulate_calls (snd (prepareTransaction cfg env tx options w)) = simulate_calls w"
  by (auto simp: prepareTransaction_def Let_def split: sum.splits)

subsection \<open>The working copy and the original\<close>

lemma set_drop_append: "set (drop k (xs @ ys)) \<subseteq> set (drop k xs) \<union> set ys"
  using set_drop_subset [of "k - length xs" ys] by auto

lemma copy_invariant_world_step:
  assumes inv: "copy_invariant env orig t copy expected ks ke w"
    and step: "world_step copy w w'"
  shows "copy_invariant env orig t copy expected ks ke w'"
proof -
  from step obtain evs subs where
    h: "heap w' = heap w"
    and e: "events w' = events w @ evs" "\<forall>r k. Ev_SENDING r k \<in> set evs \<longrightarrow> r = copy"
    and s: "submitted w' = submitted w @ subs" "\<forall>p \<in> set subs. p = (copy, heap w ! copy)"
    unfolding world_step_def by blast
  from inv obtain c where
    c: "heap w ! copy = Legacy c" "sign_keeps_instructions env \<longrightarrow> instructions c = expected"
    and olds: "\<forall>p \<in> set (drop ks (submitted w)).
            fst p = copy \<and> (sign_keeps_instructions env \<longrightarrow> instructions_of (snd p) = expected)"
    and olde: "\<forall>r k. Ev_SENDING r k \<in> set (drop ke (events w)) \<longrightarrow> r = copy"
    and rest: "orig < length (heap w)" "copy < length (heap w)" "orig \<noteq> copy"
      "heap w ! orig = Legacy t"
    unfolding copy_invariant_def by blast
  have news: "\<forall>p \<in> set (drop ks (submitted w')).
            fst p = copy \<and> (sign_keeps_instructions env \<longrightarrow> instructions_of (snd p) = expected)"
  proof
    fix p assume "p \<in> set (drop ks (submitted w'))"
    then have "p \<in> set (drop ks (submitted w)) \<or> p \<in> set subs"
      using set_drop_append [of ks "submitted w" subs] s(1) by auto
    then show "fst p = copy \<and> (sign_keeps_instructions env \<longrightarrow> instructions_of (snd p) = expected)"
      using olds s(2) c by auto
  qed
  have newe: "\<forall>r k. Ev_SENDING r k \<in> set (drop ke (events w')) \<longrightarrow> r = copy"
  proof (intro allI impI)
    fix r k assume "Ev_SENDING r k \<in> set (drop ke (events w'))"
    then have "Ev_SENDING r k \<in> set (drop ke (events w)) \<or> Ev_SENDING r k \<in> set evs"
      using set_drop_append [of ke "events w" evs] e(1) by auto
    then show "r = copy" using olde e(2) by blast
  qed
  show ?thesis
    unfolding copy_invariant_def using h c rest news newe by auto
qed

lemma copy_invariant_sign:
  assumes inv: "copy_invariant env orig t copy expected ks ke w"
  shows "copy_invariant env orig t copy expected ks ke (snd (signTransaction cfg env copy bh ex w))"
proof -
  from inv obtain c where
    c: "heap w ! copy = Legacy c" "sign_keeps_instructions env \<longrightarrow> instructions c = expected"
    and rest: "orig < length (heap w)" "copy < length (heap w)" "orig \<noteq> copy"
      "heap w ! orig = Legacy t"
    and olds: "\<forall>p \<in> set (drop ks (submitted w)).
            fst p = copy \<and> (sign_keeps_instructions env \<longrightarrow> instructions_of (snd p) = expected)"
    and olde: "\<forall>r k. Ev_SENDING r k \<in> set (drop ke (events w)) \<longrightarrow> r = copy"
    unfolding copy_invariant_def by blast
  obtain c' where
    w': "snd (signTransaction cfg env copy bh ex w) = w\<lparr>heap := (heap w)[copy := Legacy c']\<rparr>"
    and k: "sign_keeps_instructions env \<longrightarrow> instructions c' = instructions c"
    using signTransaction_legacy [OF c(1), of cfg env bh ex] by blast
  show ?thesis
    unfolding copy_invariant_def w' using c rest olds olde k by auto
qed

lemma copy_invariant_attempt:
  assumes inv: "copy_invariant env orig t copy expected ks ke w"
    and run: "send_attempt cfg env copy cm fee options ctx w = (out, w')"
  shows "copy_invariant env orig t copy expected ks ke w'"
proof (cases "env_getBlockhash env (attempt ctx)")
  case (Inl e)
  then show ?thesis using run inv by (simp add: send_attempt_def)
next
  case (Inr bh)
  let ?ex = "(case options of None \<Rightarrow> None | Some opts \<Rightarrow> opt_extraSigners opts)"
  obtain th w1 where sg: "signTransaction cfg env copy bh ?ex w = (th, w1)"
    by (cases "signTransaction cfg env copy bh ?ex w")
  have i1: "copy_invariant env orig t copy expected ks ke w1"
    using copy_invariant_sign [OF inv, of cfg bh ?ex] sg by simp
  show ?thesis
  proof (cases th)
    case (Some e)
    then show ?thesis using run Inr sg i1 by (simp add: send_attempt_def)
  next
    case None
    then have "submit_and_confirm cfg env copy cm fee options bh (attempt ctx) w1 = (out, w')"
      using run Inr sg by (simp add: send_attempt_def)
    then have "world_step copy w1 w'" by (rule submit_and_confirm_world_step)
    then show ?thesis using i1 copy_invariant_world_step by blast
  qed
qed

lemma copy_invariant_hook:
  assumes inv: "copy_invariant env orig t copy expected ks ke w"
    and run: "send_onRetry cfg env e a d w = (th, w')"
  shows "copy_invariant env orig t copy expected ks ke w'"
proof -
  obtain evs where "events w' = events w @ evs" "\<forall>r k. Ev_SENDING r k \<notin> set evs"
    using send_onRetry_events [of cfg env e a d w] run by auto
  moreover have "heap w' = heap w" "submitted w' = submitted w"
    using send_onRetry_fields [of cfg env e a d w] run by simp_all
  ultimately have "world_step copy w w'"
    unfolding world_step_def by auto
  then show ?thesis using inv copy_invariant_world_step by blast
qed

lemma send_prepare_failed:
  "prepareTransaction cfg env orig options w = (Inl e, w1) \<Longrightarrow> w1 = w"
  by (auto simp: prepareTransaction_def Let_def split: if_splits sum.splits)

text \<open>
  Claim C2, in the form that holds of the code.
  For every legacy transaction passed to \<^verbatim>\<open>send\<close> with priority fees
  enabled, the original object is never mutated: whatever the outcome of the send, the
  object stored at the caller's reference is the one that was there before. When
  \<^verbatim>\<open>prepareTransaction\<close> succeeds it returns a fresh working copy whose instruction list is the
  compute-budget pair (limit, then price) followed by the original's instructions without
  its compute-budget instructions, and the send signs and submits that copy only: every
  submission and every SENDING event of the send refers to the copy, and (the library's
  \<^verbatim>\<open>sign\<close> leaving instruction lists alone) every submitted transaction has that instruction
  list. For a versioned transaction the working transaction is the original reference, with no
  compute-budget instruction injected, and \<^verbatim>\<open>signTransaction\<close> writes the blockhash into the
  original's message and signs the original object in place.
\<close>

theorem send_legacy_original_not_mutated:
  "(orig < length (heap w) \<and> heap w ! orig = Legacy t \<and> cfg_priorityFee cfg \<noteq> IsFalse
     \<longrightarrow> heap (snd (send cfg env orig options w)) ! orig = Legacy t
         \<and> (\<forall>copy fee w1. prepareTransaction cfg env orig options w = (Inr (copy, fee), w1)
              \<longrightarrow> copy = length (heap w) \<and> copy \<noteq> orig
                  \<and> (\<exists>m. fee = Some m
                        \<and> heap w1 ! orig = Legacy t
                        \<and> heap w1 ! copy =
                            Legacy \<lparr>instructions =
                                      [setComputeUnitLimit (compute_units_of options),
                                       setComputeUnitPrice m]
                                        @ filter (\<lambda>ix. programId ix \<noteq> ComputeBudgetProgram_programId)
                                            (instructions t),
                                    recentBlockhash = None, feePayer = None, signatures = []\<rparr>
                        \<and> (\<forall>p \<in> set (drop (length (submitted w))
                                       (submitted (snd (send cfg env orig options w)))).
                              fst p = copy
                              \<and> (sign_keeps_instructions env
                                   \<longrightarrow> instructions_of (snd p) =
                                         [setComputeUnitLimit (compute_units_of options),
                                          setComputeUnitPrice m]
                                           @ filter (\<lambda>ix. programId ix
                                                            \<noteq> ComputeBudgetProgram_programId)
                                               (instructions t)))
                        \<and> (\<forall>r k. Ev_SENDING r k
                                    \<in> set (drop (length (events w))
                                              (events (snd (send cfg env orig options w))))
                                  \<longrightarrow> r = copy))))
   \<and> (orig < length (heap w) \<and> heap w ! orig = Versioned v
     \<longrightarrow> prepareTransaction cfg env orig options w = (Inr (orig, None), w)
         \<and> heap (snd (signTransaction cfg env orig bh ex w))
             = (heap w)[orig :=
                  (case env_sign_versioned env
                          (v\<lparr>vt_message := (vt_message v)\<lparr>vm_recentBlockhash := blockhash bh\<rparr>\<rparr>)
                          ([cfg_signer cfg]
                             @ (case cfg_extraSigners cfg of Some ks \<Rightarrow> ks | None \<Rightarrow> [])
                             @ (case ex of Some ks \<Rightarrow> ks | None \<Rightarrow> [])) of
                     Inr v2 \<Rightarrow> Versioned v2
                   | Inl e \<Rightarrow>
                       Versioned
                         (v\<lparr>vt_message := (vt_message v)\<lparr>vm_recentBlockhash := blockhash bh\<rparr>\<rparr>))])"
proof (rule conjI)
  show "orig < length (heap w) \<and> heap w ! orig = Legacy t \<and> cfg_priorityFee cfg \<noteq> IsFalse
     \<longrightarrow> heap (snd (send cfg env orig options w)) ! orig = Legacy t
         \<and> (\<forall>copy fee w1. prepareTransaction cfg env orig options w = (Inr (copy, fee), w1)
              \<longrightarrow> copy = length (heap w) \<and> copy \<noteq> orig
                  \<and> (\<exists>m. fee = Some m
                        \<and> heap w1 ! orig = Legacy t
                        \<and> heap w1 ! copy =
                            Legacy \<lparr>instructions =
                                      [setComputeUnitLimit (compute_units_of options),
                                       setComputeUnitPrice m]
                                        @ filter (\<lambda>ix. programId ix \<noteq> ComputeBudgetProgram_programId)
                                            (instructions t),
                                    recentBlockhash = None, feePayer = None, signatures = []\<rparr>
                        \<and> (\<forall>p \<in> set (drop (length (submitted w))
                                       (submitted (snd (send cfg env orig options w)))).
                              fst p = copy
                              \<and> (sign_keeps_instructions env
                                   \<longrightarrow> instructions_of (snd p) =
                                         [setComputeUnitLimit (compute_units_of options),
                                          setComputeUnitPrice m]
                                           @ filter (\<lambda>ix. programId ix
                                                            \<noteq> ComputeBudgetProgram_programId)
                                               (instructions t)))
                        \<and> (\<forall>r k. Ev_SENDING r k
                                    \<in> set (drop (length (events w))
                                              (events (snd (send cfg env orig options w))))
                                  \<longrightarrow> r = copy)))"
  proof (rule impI)
    assume a: "orig < length (heap w) \<and> heap w ! orig = Legacy t \<and> cfg_priorityFee cfg \<noteq> IsFalse"
    let ?after = "snd (send cfg env orig options w)"
    let ?exp = "\<lambda>m. [setComputeUnitLimit (compute_units_of options), setComputeUnitPrice m]
                      @ filter (\<lambda>ix. programId ix \<noteq> ComputeBudgetProgram_programId)
                          (instructions t)"
    obtain pr w1 where prep: "prepareTransaction cfg env orig options w = (pr, w1)"
      by (cases "prepareTransaction cfg env orig options w")
    show "heap ?after ! orig = Legacy t
         \<and> (\<forall>copy fee w1. prepareTransaction cfg env orig options w = (Inr (copy, fee), w1)
              \<longrightarrow> copy = length (heap w) \<and> copy \<noteq> orig
                  \<and> (\<exists>m. fee = Some m
                        \<and> heap w1 ! orig = Legacy t
                        \<and> heap w1 ! copy =
                            Legacy \<lparr>instructions = ?exp m,
                                    recentBlockhash = None, feePayer = None, signatures = []\<rparr>
                        \<and> (\<forall>p \<in> set (drop (length (submitted w)) (submitted ?after)).
                              fst p = copy
                              \<and> (sign_keeps_instructions env
                                   \<longrightarrow> instructions_of (snd p) = ?exp m))
                        \<and> (\<forall>r k. Ev_SENDING r k \<in> set (drop (length (events w)) (events ?after))
                                  \<longrightarrow> r = copy)))"
    proof (cases pr)
      case (Inl e)
      then have "w1 = w" using prep send_prepare_failed by blast
      then have "?after = w" using prep Inl by (simp add: send_def Let_def)
      then show ?thesis using a prep Inl by simp
    next
      case (Inr cf)
      obtain copy fee where cf: "cf = (copy, fee)" by (cases cf)
      have prep': "prepareTransaction cfg env orig options w = (Inr (copy, fee), w1)"
        using prep Inr cf by simp
      obtain m where m: "fee = Some m" "copy = length (heap w)"
        and w1: "w1 = w\<lparr>heap := heap w @
                   [Legacy \<lparr>instructions = ?exp m,
                            recentBlockhash = None, feePayer = None, signatures = []\<rparr>]\<rparr>"
        using prepareTransaction_copy [of w orig t cfg env options copy fee w1] a prep' by blast
      have ne: "copy \<noteq> orig" using m(2) a by simp
      have o1: "heap w1 ! orig = Legacy t" using w1 a by (simp add: nth_append)
      have c1: "heap w1 ! copy = Legacy \<lparr>instructions = ?exp m,
                            recentBlockhash = None, feePayer = None, signatures = []\<rparr>"
        using w1 m(2) by simp
      have init: "copy_invariant env orig t copy (?exp m) (length (submitted w))
                    (length (events w)) w1"
        unfolding copy_invariant_def using o1 c1 ne a m(2) w1 by simp
      have fin: "copy_invariant env orig t copy (?exp m) (length (submitted w))
                    (length (events w)) ?after"
      proof (rule send_state_invariant [OF prep'])
        show "\<And>commitment ctx s out s'.
               copy_invariant env orig t copy (?exp m) (length (submitted w)) (length (events w)) s
               \<Longrightarrow> send_attempt cfg env copy commitment fee options ctx s = (out, s')
               \<Longrightarrow> copy_invariant env orig t copy (?exp m) (length (submitted w))
                     (length (events w)) s'"
          using copy_invariant_attempt by blast
        show "\<And>e a d s th s'.
               copy_invariant env orig t copy (?exp m) (length (submitted w)) (length (events w)) s
               \<Longrightarrow> send_onRetry cfg env e a d s = (th, s')
               \<Longrightarrow> copy_invariant env orig t copy (?exp m) (length (submitted w))
                     (length (events w)) s'"
          using copy_invariant_hook by blast
        show "copy_invariant env orig t copy (?exp m) (length (submitted w))
                (length (events w)) w1"
          using init .
      qed
      have f1: "heap ?after ! orig = Legacy t"
        and f2: "\<forall>p \<in> set (drop (length (submitted w)) (submitted ?after)).
                   fst p = copy
                   \<and> (sign_keeps_instructions env \<longrightarrow> instructions_of (snd p) = ?exp m)"
        and f3: "\<forall>r k. Ev_SENDING r k \<in> set (drop (length (events w)) (events ?after))
                   \<longrightarrow> r = copy"
        using fin unfolding copy_invariant_def by blast+
      show ?thesis
        using f1 f2 f3 prep' m ne o1 c1 by simp
    qed
  qed
next
  show "orig < length (heap w) \<and> heap w ! orig = Versioned v
     \<longrightarrow> prepareTransaction cfg env orig options w = (Inr (orig, None), w)
         \<and> heap (snd (signTransaction cfg env orig bh ex w))
             = (heap w)[orig :=
                  (case env_sign_versioned env
                          (v\<lparr>vt_message := (vt_message v)\<lparr>vm_recentBlockhash := blockhash bh\<rparr>\<rparr>)
                          ([cfg_signer cfg]
                             @ (case cfg_extraSigners cfg of Some ks \<Rightarrow> ks | None \<Rightarrow> [])
                             @ (case ex of Some ks \<Rightarrow> ks | None \<Rightarrow> [])) of
                     Inr v2 \<Rightarrow> Versioned v2
                   | Inl e \<Rightarrow>
                       Versioned
                         (v\<lparr>vt_message := (vt_message v)\<lparr>vm_recentBlockhash := blockhash bh\<rparr>\<rparr>))]"
    by (auto simp: prepareTransaction_versioned signTransaction_def Let_def split: sum.splits)
qed

lemma example_fee: "estimatePriorityFee (Inr example_fees) None
       = Inr \<lparr>fe_microLamports = 3000, fe_p50 = 2000, fe_p75 = 3000, fe_p90 = 3000,
              fe_sampleCount = 3\<rparr>"
proof -
  have pr: "percentile [1000, 2000, 3000] 50 = 2000" "percentile [1000, 2000, 3000] 75 = 3000"
    "percentile [1000, 2000, 3000] 90 = 3000"
    using nearest_rank_example by (simp_all add: percentile_nearest_rank)
  show ?thesis
    by (simp add: estimatePriorityFee_unfold resolve_fee_config_def example_fees_sorted pr)
qed

lemma transfer_not_budget: "programId transfer_ix \<noteq> ComputeBudgetProgram_programId"
  by (simp add: transfer_ix_def ComputeBudgetProgram_programId_def)

lemma budget_programId [simp]:
  "programId (setComputeUnitLimit u) = ComputeBudgetProgram_programId"
  "programId (setComputeUnitPrice m) = ComputeBudgetProgram_programId"
  by (simp_all add: setComputeUnitLimit_def setComputeUnitPrice_def)

lemma example_env_fields:
  "env_sign_legacy example_env = sign_legacy_example"
  "env_sign_versioned example_env = sign_versioned_example"
  "env_feeConnection example_env = None"
  "env_recentFees example_env = Inr example_fees"
  "env_getBlockhash example_env = blockhash_new"
  "env_simConnection example_env = no_connection_error"
  "env_rpcSimulate example_env = simulate_ok"
  "env_sendRaw example_env = send_raw_ok"
  "env_confirmConnection example_env = no_connection_error"
  "env_confirm example_env = confirm_ok"
  "env_refresh example_env = no_connection_error"
  "env_startTime example_env = 0"
  "env_resultTime example_env = result_time"
  "env_retryClock example_env = example_clock"
  by (simp_all add: example_env_def)

lemma config_fees_fields:
  "cfg_signer config_fees_no_simulation = Keypair ''payer''"
  "cfg_extraSigners config_fees_no_simulation = None"
  "cfg_retry config_fees_no_simulation = None"
  "cfg_priorityFee config_fees_no_simulation = Undefined"
  "cfg_simulation config_fees_no_simulation = IsFalse"
  "cfg_commitment config_fees_no_simulation = None"
  by (simp_all add: config_fees_no_simulation_def)

lemma config_no_fees_fields:
  "cfg_signer config_no_fees_no_simulation = Keypair ''payer''"
  "cfg_extraSigners config_no_fees_no_simulation = None"
  "cfg_retry config_no_fees_no_simulation = None"
  "cfg_priorityFee config_no_fees_no_simulation = IsFalse"
  "cfg_simulation config_no_fees_no_simulation = IsFalse"
  "cfg_commitment config_no_fees_no_simulation = None"
  by (simp_all add: config_no_fees_no_simulation_def)

lemma example_clock_fields:
  "clk_start example_clock = 0" "clk_attempt example_clock k = int k * 10"
  "clk_end example_clock = 100" "clk_random example_clock k = 1 / 2"
  by (simp_all add: example_clock_def)

lemmas send_steps =
  send_def withRetry_def send_retry_config_def resolve_retry_config_def spread_field_def
  send_attempt_def signTransaction_def submit_and_confirm_def runSimulation_def
  skip_simulation_def sendRawTransaction_def awaitConfirmation_def buildResult_def emit_def
  simulateTransaction_def

lemmas example_oracles =
  example_env_fields example_clock_fields blockhash_new_def sign_legacy_example_def
  sign_versioned_example_def no_connection_error_def send_raw_ok_def confirm_ok_def
  result_time_def simulate_ok_def

lemma example_prepare:
  "prepareTransaction config_fees_no_simulation example_env 0 None legacy_world
     = (Inr (1, Some 3000),
        \<lparr>heap = [Legacy example_legacy, Legacy working_copy], events = [], simulate_calls = [],
         submitted = []\<rparr>)"
  by (simp add: prepareTransaction_def config_fees_fields legacy_world_def
        isLegacyTransaction_def resolvePriorityFee_def example_env_fields example_fee
        compute_units_of_def defaultComputeUnits_def createComputeBudgetInstructions_def
        new_Transaction_def tx_add_def example_legacy_def working_copy_def transfer_not_budget)

lemma example_send_legacy:
  "send config_fees_no_simulation example_env 0 None legacy_world
     = (Inr \<lparr>res_signature = ''SIG'', res_slot = 150, res_commitment = ''confirmed'',
             res_attempts = 1, res_totalLatencyMs = 30, res_unitsConsumed = None,
             res_priorityFee = Some 3000\<rparr>,
        \<lparr>heap = [Legacy example_legacy, Legacy signed_copy],
         events = [Ev_SENDING 1 0, Ev_SENT ''SIG'' 0, Ev_CONFIRMED ''SIG'' 150 ''confirmed''],
         simulate_calls = [],
         submitted = [(1, Legacy signed_copy)]\<rparr>)"
  by (simp add: send_steps example_prepare withRetry_loop.simps config_fees_fields
        example_oracles working_copy_def signed_copy_def Let_def)

lemma sign_keeps_instructions_example: "sign_keeps_instructions example_env"
  by (auto simp: sign_keeps_instructions_def example_env_fields sign_legacy_example_def)

theorem send_legacy_original_not_mutated_witness:
  "0 < length (heap legacy_world)
   \<and> heap legacy_world ! 0 = Legacy example_legacy
   \<and> cfg_priorityFee config_fees_no_simulation \<noteq> IsFalse
   \<and> sign_keeps_instructions example_env
   \<and> prepareTransaction config_fees_no_simulation example_env 0 None legacy_world
       = (Inr (1, Some 3000),
          \<lparr>heap = [Legacy example_legacy, Legacy working_copy], events = [],
           simulate_calls = [], submitted = []\<rparr>)
   \<and> heap (snd (send config_fees_no_simulation example_env 0 None legacy_world)) ! 0
       = Legacy example_legacy
   \<and> submitted (snd (send config_fees_no_simulation example_env 0 None legacy_world))
       = [(1, Legacy signed_copy)]
   \<and> instructions signed_copy
       = [setComputeUnitLimit (compute_units_of None), setComputeUnitPrice 3000]
           @ filter (\<lambda>ix. programId ix \<noteq> ComputeBudgetProgram_programId)
               (instructions example_legacy)
   \<and> 0 < length (heap versioned_world)
   \<and> heap versioned_world ! 0 = Versioned example_versioned
   \<and> prepareTransaction config_fees_no_simulation example_env 0 None versioned_world
       = (Inr (0, None), versioned_world)"
proof -
  have h: "0 < length (heap legacy_world)" "heap legacy_world ! 0 = Legacy example_legacy"
    "cfg_priorityFee config_fees_no_simulation \<noteq> IsFalse"
    by (simp_all add: legacy_world_def config_fees_fields)
  have v: "0 < length (heap versioned_world)"
    "heap versioned_world ! 0 = Versioned example_versioned"
    by (simp_all add: versioned_world_def)
  have i: "instructions signed_copy
       = [setComputeUnitLimit (compute_units_of None), setComputeUnitPrice 3000]
           @ filter (\<lambda>ix. programId ix \<noteq> ComputeBudgetProgram_programId)
               (instructions example_legacy)"
    by (simp add: signed_copy_def example_legacy_def compute_units_of_def defaultComputeUnits_def
          transfer_not_budget)
  show ?thesis
    using send_legacy_original_not_mutated
            [of 0 legacy_world example_legacy config_fees_no_simulation example_env None]
      send_legacy_original_not_mutated
            [of 0 versioned_world _ config_fees_no_simulation example_env None example_versioned]
      h v i sign_keeps_instructions_example example_prepare example_send_legacy
    by simp
qed

text \<open>
  A versioned transaction is signed in place: after the send the object at the caller's
  reference carries the fetched blockhash and the new signature. (So is a legacy transaction
  when priority fees are disabled.)
\<close>

lemma example_send_versioned:
  "send config_fees_no_simulation example_env 0 (Some (options_skipSimulation None))
       versioned_world
     = (Inr \<lparr>res_signature = ''SIG'', res_slot = 0, res_commitment = ''confirmed'',
             res_attempts = 1, res_totalLatencyMs = 30, res_unitsConsumed = None,
             res_priorityFee = None\<rparr>,
        \<lparr>heap = [Versioned signed_versioned],
         events = [Ev_SENDING 0 0, Ev_SENT ''SIG'' 0],
         simulate_calls = [],
         submitted = [(0, Versioned signed_versioned)]\<rparr>)"
  by (simp add: send_steps prepareTransaction_def isLegacyTransaction_def versioned_world_def
        withRetry_loop.simps config_fees_fields example_oracles options_skipSimulation_def
        example_versioned_def signed_versioned_def Let_def)

theorem send_versioned_mutated_counterexample:
  "heap versioned_world ! 0 = Versioned example_versioned
   \<and> heap (snd (send config_fees_no_simulation example_env 0
                   (Some (options_skipSimulation None)) versioned_world)) ! 0
       = Versioned signed_versioned
   \<and> vm_recentBlockhash (vt_message example_versioned) = ''HASH_OLD''
   \<and> vm_recentBlockhash (vt_message signed_versioned) = ''HASH_NEW''
   \<and> Versioned signed_versioned \<noteq> Versioned example_versioned"
proof -
  have "heap (snd (send config_fees_no_simulation example_env 0
                   (Some (options_skipSimulation None)) versioned_world)) ! 0
       = Versioned signed_versioned"
    by (simp add: example_send_versioned)
  moreover have "heap versioned_world ! 0 = Versioned example_versioned"
    by (simp add: versioned_world_def)
  ultimately show ?thesis
    by (simp add: example_versioned_def signed_versioned_def)
qed

subsection \<open>Skipping the simulation\<close>

lemma send_skip_simulation:
  assumes "skip_simulation cfg options"
  shows "simulate_calls (snd (send cfg env transaction options w)) = simulate_calls w"
proof -
  obtain pr w1 where prep: "prepareTransaction cfg env transaction options w = (pr, w1)"
    by (cases "prepareTransaction cfg env transaction options w")
  have c1: "simulate_calls w1 = simulate_calls w"
    using prepareTransaction_simulate_calls [of cfg env transaction options w] prep by simp
  show ?thesis
  proof (cases pr)
    case (Inl e)
    then show ?thesis using prep c1 by (simp add: send_def Let_def)
  next
    case (Inr cf)
    obtain tx fee where cf: "cf = (tx, fee)" by (cases cf)
    have prep': "prepareTransaction cfg env transaction options w = (Inr (tx, fee), w1)"
      using prep Inr cf by simp
    show ?thesis
    proof (rule send_state_invariant
             [OF prep', where I = "\<lambda>s. simulate_calls s = simulate_calls w"])
      show "\<And>commitment ctx s out s'.
              simulate_calls s = simulate_calls w
              \<Longrightarrow> send_attempt cfg env tx commitment fee options ctx s = (out, s')
              \<Longrightarrow> simulate_calls s' = simulate_calls w"
        using send_attempt_simulate_calls [OF assms] by (metis snd_conv)
      show "\<And>e a d s t s'.
              simulate_calls s = simulate_calls w
              \<Longrightarrow> send_onRetry cfg env e a d s = (t, s')
              \<Longrightarrow> simulate_calls s' = simulate_calls w"
        using send_onRetry_fields(3) by (metis snd_conv)
      show "simulate_calls w1 = simulate_calls w" using c1 .
    qed
  qed
qed

text \<open>
  Claim C3, in the form that holds of the code.
  On a sender whose configuration disables simulation
  (\<^verbatim>\<open>simulation = false\<close>), a send whose options do not set \<^verbatim>\<open>skipSimulation\<close>, or set it to
  \<^verbatim>\<open>true\<close>, never invokes \<^verbatim>\<open>simulateTransaction\<close>. When the options pass
  \<^verbatim>\<open>skipSimulation = false\<close> explicitly, the per-send value overrides the configuration:
  \<^verbatim>\<open>runSimulation\<close> does not skip, and with a connection at hand it invokes
  \<^verbatim>\<open>simulateTransaction\<close> on the working transaction, with no simulation config.
\<close>

theorem config_disabled_simulation_skipped:
  "(cfg_simulation cfg = IsFalse
      \<and> (options = None
          \<or> (\<exists>opts. options = Some opts
                \<and> (opt_skipSimulation opts = None \<or> opt_skipSimulation opts = Some True)))
     \<longrightarrow> simulate_calls (snd (send cfg env transaction options w)) = simulate_calls w)
   \<and> (cfg_simulation cfg = IsFalse \<and> options = Some opts
      \<and> opt_skipSimulation opts = Some False \<and> env_simConnection env att = None
     \<longrightarrow> simulate_calls (snd (runSimulation cfg env att tx options w))
           = simulate_calls w @ [(tx, heap w ! tx, None)])"
proof (rule conjI)
  show "cfg_simulation cfg = IsFalse
      \<and> (options = None
          \<or> (\<exists>opts. options = Some opts
                \<and> (opt_skipSimulation opts = None \<or> opt_skipSimulation opts = Some True)))
     \<longrightarrow> simulate_calls (snd (send cfg env transaction options w)) = simulate_calls w"
  proof (rule impI)
    assume a: "cfg_simulation cfg = IsFalse
      \<and> (options = None
          \<or> (\<exists>opts. options = Some opts
                \<and> (opt_skipSimulation opts = None \<or> opt_skipSimulation opts = Some True)))"
    then have "skip_simulation cfg options"
      by (auto simp: skip_simulation_def)
    then show "simulate_calls (snd (send cfg env transaction options w)) = simulate_calls w"
      by (rule send_skip_simulation)
  qed
next
  show "cfg_simulation cfg = IsFalse \<and> options = Some opts
      \<and> opt_skipSimulation opts = Some False \<and> env_simConnection env att = None
     \<longrightarrow> simulate_calls (snd (runSimulation cfg env att tx options w))
           = simulate_calls w @ [(tx, heap w ! tx, None)]"
    by (auto simp: runSimulation_def skip_simulation_def simulateTransaction_def emit_def Let_def
          split: sum.splits)
qed

lemma example_send_skip_false:
  "send config_no_fees_no_simulation example_env 0 (Some (options_skipSimulation (Some False)))
       legacy_world
     = (Inr \<lparr>res_signature = ''SIG'', res_slot = 0, res_commitment = ''confirmed'',
             res_attempts = 1, res_totalLatencyMs = 30, res_unitsConsumed = Some 50000,
             res_priorityFee = None\<rparr>,
        \<lparr>heap = [Legacy signed_legacy],
         events = [Ev_SIMULATED [] 50000 [''log1''], Ev_SENDING 0 0, Ev_SENT ''SIG'' 0],
         simulate_calls = [(0, Legacy signed_legacy, None)],
         submitted = [(0, Legacy signed_legacy)]\<rparr>)"
  by (simp add: send_steps prepareTransaction_def legacy_world_def
        withRetry_loop.simps config_no_fees_fields example_oracles options_skipSimulation_def
        example_legacy_def signed_legacy_def Let_def)

lemma example_send_skip_unset:
  "send config_no_fees_no_simulation example_env 0 (Some (options_skipSimulation None))
       legacy_world
     = (Inr \<lparr>res_signature = ''SIG'', res_slot = 0, res_commitment = ''confirmed'',
             res_attempts = 1, res_totalLatencyMs = 30, res_unitsConsumed = None,
             res_priorityFee = None\<rparr>,
        \<lparr>heap = [Legacy signed_legacy],
         events = [Ev_SENDING 0 0, Ev_SENT ''SIG'' 0],
         simulate_calls = [],
         submitted = [(0, Legacy signed_legacy)]\<rparr>)"
  by (simp add: send_steps prepareTransaction_def legacy_world_def
        withRetry_loop.simps config_no_fees_fields example_oracles options_skipSimulation_def
        example_legacy_def signed_legacy_def Let_def)

theorem config_disabled_simulation_skipped_witness:
  "cfg_simulation config_no_fees_no_simulation = IsFalse
   \<and> opt_skipSimulation (options_skipSimulation None) = None
   \<and> simulate_calls (snd (send config_no_fees_no_simulation example_env 0
                             (Some (options_skipSimulation None)) legacy_world)) = []
   \<and> simulate_calls legacy_world = []
   \<and> opt_skipSimulation (options_skipSimulation (Some False)) = Some False
   \<and> env_simConnection example_env 0 = None
   \<and> simulate_calls (snd (runSimulation config_no_fees_no_simulation example_env 0 0
                             (Some (options_skipSimulation (Some False))) legacy_world))
       = [(0, Legacy example_legacy, None)]"
  using config_disabled_simulation_skipped
          [of config_no_fees_no_simulation "Some (options_skipSimulation None)" example_env 0
              legacy_world "options_skipSimulation None" 0 0]
    config_disabled_simulation_skipped
          [of config_no_fees_no_simulation "Some (options_skipSimulation (Some False))"
              example_env 0 legacy_world "options_skipSimulation (Some False)" 0 0]
  by (simp add: config_no_fees_fields options_skipSimulation_def example_env_fields
        no_connection_error_def legacy_world_def example_send_skip_unset [unfolded
          options_skipSimulation_def legacy_world_def])

text \<open>
  With simulation disabled in the configuration and \<^verbatim>\<open>skipSimulation = false\<close> in the
  options, the send does invoke \<^verbatim>\<open>simulateTransaction\<close> (once, with no simulation config) and
  emits SIMULATED.
\<close>

theorem explicit_skipSimulation_false_counterexample:
  "cfg_simulation config_no_fees_no_simulation = IsFalse
   \<and> opt_skipSimulation (options_skipSimulation (Some False)) = Some False
   \<and> simulate_calls legacy_world = []
   \<and> simulate_calls (snd (send config_no_fees_no_simulation example_env 0
                             (Some (options_skipSimulation (Some False))) legacy_world))
       = [(0, Legacy signed_legacy, None)]"
proof -
  have "simulate_calls (snd (send config_no_fees_no_simulation example_env 0
                             (Some (options_skipSimulation (Some False))) legacy_world))
       = [(0, Legacy signed_legacy, None)]"
    by (simp add: example_send_skip_false)
  moreover have "simulate_calls legacy_world = []"
    by (simp add: legacy_world_def)
  ultimately show ?thesis
    by (simp add: config_no_fees_fields options_skipSimulation_def)
qed

end
